theory Spec2Isabelle
  imports Complex_Main "HOL-Library.Sublist" "HOL-Library.Multiset"
    "HOL-Library.Char_ord" "HOL-Library.List_Lexorder"
begin

section \<open>Data model\<close>

text \<open>
  The program (\<^verbatim>\<open>app.py\<close>) works on a pandas data frame read from a CSV file. A data
  frame is a schema (\<^verbatim>\<open>df.columns\<close>) and a list of rows. After \<^verbatim>\<open>read_csv\<close> every
  column is either textual (dtype object) or numeric; an empty cell is NaN. A row therefore
  gives, for a column name, an optional text (\<open>cat\<close>: the categorical dimensions, the
  health and duration answers, the ID) and an optional number (\<open>num\<close>: the indicator
  columns and the ratings); \<open>None\<close> is NaN. A number is the real number that the double is.

  Reading a column that is not in the schema raises \<^verbatim>\<open>KeyError\<close>, as does indexing a dict
  with a key it does not have; the \<^verbatim>\<open>.str\<close> accessor of a column that is not textual raises
  \<^verbatim>\<open>AttributeError\<close>.
\<close>

datatype error = KeyError string | ValueError | AttributeError

record row =
  cat :: "string \<Rightarrow> string option"
  num :: "string \<Rightarrow> real option"

record dataframe =
  columns :: "string list"
  rows :: "row list"

text \<open>\<^verbatim>\<open>len(df)\<close>\<close>

definition len :: "dataframe \<Rightarrow> nat" where
  "len df = length (rows df)"

text \<open>
  pandas keeps with every column the dtype it inferred when the CSV file was read: object
  for a column with at least one text, float64 for a column whose cells are all empty.
  Filtering rows keeps the dtype, so it cannot be read off the rows of a filtered frame;
  where the program depends on it, it is an argument.
\<close>

datatype dtype = Object | Float64

text \<open>
  The arithmetic of the hypothesis evaluator and of the rounded percentages is pandas' and
  numpy's arithmetic on doubles: every sum, mean, quotient, product and rounding is
  rounded, in a way that depends on the library routine (the grouped mean is a compensated
  sum, for one). These routines are not part of the program. The model takes them as an
  argument, a record of operations, and what is proved holds for every such record; two
  doubles are compared exactly, as the reals they are.

  \<^item> \<open>f_sum\<close>: \<^verbatim>\<open>df[cols].sum(axis=1)\<close> of one row, NaN counted as 0;
  \<^item> \<open>f_group_mean\<close>: the mean of the values of one group of \<^verbatim>\<open>groupby(...).agg\<close>;
  \<^item> \<open>f_mean\<close>: \<^verbatim>\<open>series.mean()\<close> of the values of a series;
  \<^item> \<open>f_div\<close>, \<open>f_mul\<close>: \<^verbatim>\<open>a / b\<close> and \<^verbatim>\<open>a * b\<close>;
  \<^item> \<open>f_round\<close>: \<^verbatim>\<open>numpy.round(x, d)\<close>.
\<close>

record float_ops =
  f_sum :: "real list \<Rightarrow> real"
  f_group_mean :: "real list \<Rightarrow> real"
  f_mean :: "real list \<Rightarrow> real"
  f_div :: "real \<Rightarrow> real \<Rightarrow> real"
  f_mul :: "real \<Rightarrow> real \<Rightarrow> real"
  f_round :: "nat \<Rightarrow> real \<Rightarrow> real"

section \<open>Filter engine\<close>

text \<open>
  \<^verbatim>\<open>filtered_df[filtered_df[col].isin(values)]\<close>: the rows whose cell in \<open>col\<close> is one of
  \<open>values\<close>, in their order. The accepted values are texts, so a NaN cell is never among
  them.
\<close>

definition isin :: "string option \<Rightarrow> string list \<Rightarrow> bool" where
  "isin c values = (case c of None \<Rightarrow> False | Some v \<Rightarrow> v \<in> set values)"

definition select_isin :: "string \<Rightarrow> string list \<Rightarrow> dataframe \<Rightarrow> dataframe" where
  "select_isin col values fdf = fdf\<lparr>rows := filter (\<lambda>r. isin (cat r col) values) (rows fdf)\<rparr>"

text \<open>
  One \<^verbatim>\<open>if values and col in df.columns:\<close> block of \<^verbatim>\<open>filter_dataframe\<close>: the schema test
  reads the unfiltered frame \<open>df\<close>, the selection applies to the running \<open>filtered_df\<close>.
\<close>

definition apply_criterion :: "dataframe \<Rightarrow> string \<Rightarrow> string list \<Rightarrow> dataframe \<Rightarrow> dataframe" where
  "apply_criterion df col values filtered_df =
     (if values \<noteq> [] \<and> col \<in> set (columns df) then select_isin col values filtered_df
      else filtered_df)"

definition duration_column :: string where
  "duration_column = ''How long does a client receive services funded by World Jewish Relief?''"

definition filter_dataframe ::
  "dataframe \<Rightarrow> string list \<Rightarrow> string list \<Rightarrow> string list \<Rightarrow> string list \<Rightarrow> string list \<Rightarrow>
   string list \<Rightarrow> string list \<Rightarrow> string list \<Rightarrow> dataframe" where
  "filter_dataframe df country region partner age_range gender new_client duration victim_status =
     (let filtered_df = df;
          filtered_df = apply_criterion df ''country'' country filtered_df;
          filtered_df = apply_criterion df ''region'' region filtered_df;
          filtered_df = apply_criterion df ''Partner'' partner filtered_df;
          filtered_df = apply_criterion df ''client_age_range'' age_range filtered_df;
          filtered_df = apply_criterion df ''client_gender'' gender filtered_df;
          filtered_df = apply_criterion df ''client_new'' new_client filtered_df;
          filtered_df = apply_criterion df duration_column duration filtered_df;
          filtered_df = apply_criterion df ''client_victim_of_nazism_status'' victim_status filtered_df
      in filtered_df)"

text \<open>
  The options the sidebar offers for a dimension, and selects by default:
  \<^verbatim>\<open>sorted(df[col].dropna().unique().tolist())\<close>.
\<close>

definition dropna :: "'a option list \<Rightarrow> 'a list" where
  "dropna cells = List.map_filter id cells"

definition unique :: "'a list \<Rightarrow> 'a list" where
  "unique xs = rev (remdups (rev xs))"

definition column_options :: "dataframe \<Rightarrow> string \<Rightarrow> string list" where
  "column_options df col = sort (unique (dropna (map (\<lambda>r. cat r col) (rows df))))"

text \<open>
  The condition under which a row survives one criterion, and all eight of them: used to
  state what \<open>filter_dataframe\<close> computes.
\<close>

definition passes :: "dataframe \<Rightarrow> string \<Rightarrow> string list \<Rightarrow> row \<Rightarrow> bool" where
  "passes df col values r = (values = [] \<or> col \<notin> set (columns df) \<or> isin (cat r col) values)"

definition passes_all ::
  "dataframe \<Rightarrow> string list \<Rightarrow> string list \<Rightarrow> string list \<Rightarrow> string list \<Rightarrow> string list \<Rightarrow>
   string list \<Rightarrow> string list \<Rightarrow> string list \<Rightarrow> row \<Rightarrow> bool" where
  "passes_all df country region partner age_range gender new_client duration victim_status r =
     (passes df ''country'' country r \<and> passes df ''region'' region r \<and>
      passes df ''Partner'' partner r \<and> passes df ''client_age_range'' age_range r \<and>
      passes df ''client_gender'' gender r \<and> passes df ''client_new'' new_client r \<and>
      passes df duration_column duration r \<and>
      passes df ''client_victim_of_nazism_status'' victim_status r)"

definition dimension_columns :: "string list" where
  "dimension_columns =
     [''country'', ''region'', ''Partner'', ''client_age_range'', ''client_gender'',
      ''client_new'', duration_column, ''client_victim_of_nazism_status'']"

text \<open>
  \<open>filter_dataframe\<close> called with, for every dimension, the list of all values observed in
  that dimension's column (the options above).
\<close>

definition filter_all_options :: "dataframe \<Rightarrow> dataframe" where
  "filter_all_options df =
     filter_dataframe df (column_options df ''country'') (column_options df ''region'')
       (column_options df ''Partner'') (column_options df ''client_age_range'')
       (column_options df ''client_gender'') (column_options df ''client_new'')
       (column_options df duration_column)
       (column_options df ''client_victim_of_nazism_status'')"

section \<open>Aggregation engine\<close>

text \<open>
  \<^verbatim>\<open>numpy.round(x, d)\<close> without rounding error: scale by \<open>10 ^ d\<close>, round to the nearest
  integer with ties to the even one, scale back. (numpy does this on doubles: the scaled
  value is rounded before the tie is decided, so the two can differ at a tie.) It is the
  rounding of \<open>exact_arithmetic\<close> below.
\<close>

definition rint :: "real \<Rightarrow> int" where
  "rint x =
     (let f = \<lfloor>x\<rfloor>; d = x - of_int f
      in if d < 1 / 2 then f else if d > 1 / 2 then f + 1 else if even f then f else f + 1)"

definition round_decimals :: "nat \<Rightarrow> real \<Rightarrow> real" where
  "round_decimals d x = of_int (rint (x * 10 ^ d)) / 10 ^ d"

text \<open>
  \<^verbatim>\<open>sort_values(key, ascending=False)\<close>: pandas reverses the rows, sorts them by ascending
  key and reverses the result. The sort is numpy's, which is an insertion sort on the short
  tables sorted here, so rows with equal keys keep their order. \<^verbatim>\<open>sort_values(key)\<close> sorts
  by ascending key and puts the rows whose key is NaN last, in their order.
\<close>

definition sort_values_desc :: "('a \<Rightarrow> 'k::linorder) \<Rightarrow> 'a list \<Rightarrow> 'a list" where
  "sort_values_desc key xs = rev (sort_key key (rev xs))"

definition sort_values_na_last :: "('a \<Rightarrow> 'k::linorder option) \<Rightarrow> 'a list \<Rightarrow> 'a list" where
  "sort_values_na_last key xs =
     sort_key (\<lambda>x. the (key x)) (filter (\<lambda>x. key x \<noteq> None) xs) @ filter (\<lambda>x. key x = None) xs"

text \<open>
  \<^verbatim>\<open>series.value_counts().reset_index()\<close>: the observed values (NaN dropped) with their
  numbers of occurrences, by descending count.
\<close>

definition value_counts :: "'a option list \<Rightarrow> ('a \<times> nat) list" where
  "value_counts cells =
     (let vs = dropna cells
      in sort_values_desc snd (map (\<lambda>v. (v, count_list vs v)) (unique vs)))"

text \<open>
  The percentage column "with safeguard" (lines 533-537, 561-565, 1006-1010):
  \<^verbatim>\<open>(Count / total * 100).round(1)\<close> when the total is positive, else 0.
\<close>

definition add_percentage :: "float_ops \<Rightarrow> ('a \<times> nat) list \<Rightarrow> ('a \<times> nat \<times> real) list" where
  "add_percentage ops counts =
     (let total = sum_list (map snd counts)
      in if total > 0
         then map (\<lambda>(c, n).
                (c, n, f_round ops 1 (f_mul ops (f_div ops (real n) (real total)) 100))) counts
         else map (\<lambda>(c, n). (c, n, 0)) counts)"

text \<open>The gender distribution (lines 527-537); \<open>None\<close> when the section is skipped.\<close>

definition gender_distribution ::
  "float_ops \<Rightarrow> dataframe \<Rightarrow> (string \<times> nat \<times> real) list option" where
  "gender_distribution ops filtered_df =
     (if ''client_gender'' \<in> set (columns filtered_df)
      then Some (add_percentage ops
                   (value_counts (map (\<lambda>r. cat r ''client_gender'') (rows filtered_df))))
      else None)"

text \<open>
  The age distribution (lines 555-580): the same, then sorted by the position of the age
  bracket in \<open>age_order\<close>. \<^verbatim>\<open>Series.map(age_mapping)\<close> with a dict gives NaN for a bracket
  that is not a key.
\<close>

definition age_order :: "string list" where
  "age_order = [''18-54'', ''55-69'', ''70-85'', ''85+'', ''unknown'']"

definition age_mapping :: "string \<Rightarrow> nat option" where
  "age_mapping = map_of (zip age_order [0..<length age_order])"

definition age_distribution ::
  "float_ops \<Rightarrow> dataframe \<Rightarrow> (string \<times> nat \<times> real) list option" where
  "age_distribution ops filtered_df =
     (if ''client_age_range'' \<in> set (columns filtered_df)
      then let age_counts =
                 add_percentage ops
                   (value_counts (map (\<lambda>r. cat r ''client_age_range'') (rows filtered_df)))
           in Some (sort_values_na_last (\<lambda>(age, n, p). age_mapping age) age_counts)
      else None)"

text \<open>
  The indicator-group summary (lines 611-630 for the chronic conditions, 673-688 for the
  activities, 719-734 for the services: the same code over another list of columns).
  \<^verbatim>\<open>filtered_df[col].sum()\<close> skips NaN.
\<close>

definition chronic_columns :: "string list" where
  "chronic_columns =
     [''chronic cardiovascular'', ''Diabetes'', ''Respiratory diseases'',
      ''Musculoskeletal disorders'', ''Neurological disorders'', ''Dementia'',
      ''Oncological diseases'', ''Vision or hearing impairments'',
      ''Physical limitations due to injuries or disability'',
      ''Other (please specify)'', ''No chronic diseases or physical limitations'']"

definition activity_columns :: "string list" where
  "activity_columns =
     [''activity volunteers social'', ''Social events'', ''Interest-based clubs'',
      ''Home care'', ''Psychological support (group)'', ''Psychological support (individual)'',
      ''Warm ome / Welcoming space'', ''Physical rehabilitation'', ''Physical activities'']"

definition service_columns :: "string list" where
  "service_columns =
     [''None of the above'', ''Purchase of tablets or phones'',
      ''Mobility or exercise equipment'', ''Medical treatment'', ''Medical devices'',
      ''Delivery of food packages/hot meals'', ''Medical support'',
      ''Delivery of blood pressure/oximeters'', ''Winter assistance'',
      ''Other material assistance'']"

definition column_sum :: "dataframe \<Rightarrow> string \<Rightarrow> real" where
  "column_sum df col = sum_list (dropna (map (\<lambda>r. num r col) (rows df)))"

definition indicator_summary ::
  "string list \<Rightarrow> dataframe \<Rightarrow> (string \<times> real \<times> real) list option" where
  "indicator_summary group_columns filtered_df =
     (let available_columns = filter (\<lambda>col. col \<in> set (columns filtered_df)) group_columns
      in if available_columns \<noteq> []
         then let total_respondents = len filtered_df;
                  data =
                    (if total_respondents > 0
                     then map (\<lambda>col.
                            let count = column_sum filtered_df col;
                                percentage = (count / real total_respondents) * 100
                            in (col, count, percentage)) available_columns
                     else map (\<lambda>col. (col, 0, 0)) available_columns)
              in Some (sort_values_desc (\<lambda>(col, count, percentage). count) data)
         else None)"

definition chronic_summary :: "dataframe \<Rightarrow> (string \<times> real \<times> real) list option" where
  "chronic_summary = indicator_summary chronic_columns"

definition activity_summary :: "dataframe \<Rightarrow> (string \<times> real \<times> real) list option" where
  "activity_summary = indicator_summary activity_columns"

definition service_summary :: "dataframe \<Rightarrow> (string \<times> real \<times> real) list option" where
  "service_summary = indicator_summary service_columns"

text \<open>
  \<^verbatim>\<open>pd.crosstab(a, b, normalize='index') * 100\<close>: the rows with a value in both columns are
  counted per pair of values; the table has one row per observed value of \<open>a\<close> and one
  column per observed value of \<open>b\<close>, both sorted, and each row is divided by its total.
\<close>

record crosstab =
  ct_index :: "string list"
  ct_columns :: "string list"
  ct_cell :: "string \<Rightarrow> string \<Rightarrow> real"

definition crosstab_index_percent :: "string option list \<Rightarrow> string option list \<Rightarrow> crosstab" where
  "crosstab_index_percent a b =
     (let pairs = concat (map (\<lambda>(x, y). case (x, y) of (Some u, Some v) \<Rightarrow> [(u, v)] | _ \<Rightarrow> []) (zip a b))
      in \<lparr>ct_index = sort (remdups (map fst pairs)),
          ct_columns = sort (remdups (map snd pairs)),
          ct_cell = (\<lambda>i c. real (count_list pairs (i, c)) /
                            real (length (filter (\<lambda>p. fst p = i) pairs)) * 100)\<rparr>)"

text \<open>\<^verbatim>\<open>table[c]\<close>: the column \<open>c\<close> as a series over the index; \<^verbatim>\<open>KeyError\<close> without it.\<close>

definition ct_getitem :: "crosstab \<Rightarrow> string \<Rightarrow> error + (string \<times> real) list" where
  "ct_getitem t c =
     (if c \<in> set (ct_columns t) then Inr (map (\<lambda>i. (i, ct_cell t i c)) (ct_index t))
      else Inl (KeyError c))"

text \<open>\<^verbatim>\<open>series.idxmax()\<close>: the label of the first largest value; an empty series raises.\<close>

fun idxmax :: "(string \<times> real) list \<Rightarrow> error + string" where
  "idxmax [] = Inl ValueError"
| "idxmax (p # ps) = Inr (fst (foldl (\<lambda>best q. if snd q > snd best then q else best) p ps))"

text \<open>
  The column of the question "How often do you take part in the events for better physical
  health that our partners organise?" (in Russian, as UTF-8 bytes).
\<close>

definition activity_freq_col :: string where
  "activity_freq_col =
     [CHR 0xD0, CHR 0x9A, CHR 0xD0, CHR 0xB0, CHR 0xD0, CHR 0xBA] @ '' '' @ [CHR 0xD1,
      CHR 0x87, CHR 0xD0, CHR 0xB0, CHR 0xD1, CHR 0x81, CHR 0xD1, CHR 0x82, CHR 0xD0,
      CHR 0xBE] @ '' '' @ [CHR 0xD0, CHR 0xB2, CHR 0xD1, CHR 0x8B] @ '' '' @ [CHR 0xD1,
      CHR 0x83, CHR 0xD1, CHR 0x87, CHR 0xD0, CHR 0xB0, CHR 0xD1, CHR 0x81, CHR 0xD1, CHR 0x82,
      CHR 0xD0, CHR 0xB2, CHR 0xD1, CHR 0x83, CHR 0xD0, CHR 0xB5, CHR 0xD1, CHR 0x82, CHR 0xD0,
      CHR 0xB5] @ '' '' @ [CHR 0xD0, CHR 0xB2] @ '' '' @ [CHR 0xD0, CHR 0xBC, CHR 0xD0,
      CHR 0xB5, CHR 0xD1, CHR 0x80, CHR 0xD0, CHR 0xBE, CHR 0xD0, CHR 0xBF, CHR 0xD1, CHR 0x80,
      CHR 0xD0, CHR 0xB8, CHR 0xD1, CHR 0x8F, CHR 0xD1, CHR 0x82, CHR 0xD0, CHR 0xB8, CHR 0xD1,
      CHR 0x8F, CHR 0xD1, CHR 0x85] @ '', '' @ [CHR 0xD0, CHR 0xBA, CHR 0xD0, CHR 0xBE,
      CHR 0xD1, CHR 0x82, CHR 0xD0, CHR 0xBE, CHR 0xD1, CHR 0x80, CHR 0xD1, CHR 0x8B, CHR 0xD0,
      CHR 0xB5] @ '' '' @ [CHR 0xD0, CHR 0xBA, CHR 0xD0, CHR 0xB0, CHR 0xD1, CHR 0x81,
      CHR 0xD0, CHR 0xB0, CHR 0xD1, CHR 0x8E, CHR 0xD1, CHR 0x82, CHR 0xD1, CHR 0x8C, CHR 0xD1,
      CHR 0x81, CHR 0xD1, CHR 0x8F] @ '' '' @ [CHR 0xD1, CHR 0x83, CHR 0xD0, CHR 0xBB,
      CHR 0xD1, CHR 0x83, CHR 0xD1, CHR 0x87, CHR 0xD1, CHR 0x88, CHR 0xD0, CHR 0xB5, CHR 0xD0,
      CHR 0xBD, CHR 0xD0, CHR 0xB8, CHR 0xD1, CHR 0x8F] @ '' '' @ [CHR 0xD1, CHR 0x84,
      CHR 0xD0, CHR 0xB8, CHR 0xD0, CHR 0xB7, CHR 0xD0, CHR 0xB8, CHR 0xD1, CHR 0x87, CHR 0xD0,
      CHR 0xB5, CHR 0xD1, CHR 0x81, CHR 0xD0, CHR 0xBA, CHR 0xD0, CHR 0xBE, CHR 0xD0, CHR 0xB3,
      CHR 0xD0, CHR 0xBE] @ '' '' @ [CHR 0xD0, CHR 0xB7, CHR 0xD0, CHR 0xB4, CHR 0xD0,
      CHR 0xBE, CHR 0xD1, CHR 0x80, CHR 0xD0, CHR 0xBE, CHR 0xD0, CHR 0xB2, CHR 0xD1, CHR 0x8C,
      CHR 0xD1, CHR 0x8F] @ '', '' @ [CHR 0xD0, CHR 0xBE, CHR 0xD1, CHR 0x80, CHR 0xD0,
      CHR 0xB3, CHR 0xD0, CHR 0xB0, CHR 0xD0, CHR 0xBD, CHR 0xD0, CHR 0xB8, CHR 0xD0, CHR 0xB7,
      CHR 0xD1, CHR 0x83, CHR 0xD0, CHR 0xB5, CHR 0xD0, CHR 0xBC, CHR 0xD1, CHR 0x8B, CHR 0xD1,
      CHR 0x85] @ '' '' @ [CHR 0xD0, CHR 0xBD, CHR 0xD0, CHR 0xB0, CHR 0xD1, CHR 0x88,
      CHR 0xD0, CHR 0xB8, CHR 0xD0, CHR 0xBC, CHR 0xD0, CHR 0xB8] @ '' '' @ [CHR 0xD0,
      CHR 0xBF, CHR 0xD0, CHR 0xB0, CHR 0xD1, CHR 0x80, CHR 0xD1, CHR 0x82, CHR 0xD0, CHR 0xBD,
      CHR 0xD0, CHR 0xB5, CHR 0xD1, CHR 0x80, CHR 0xD0, CHR 0xB0, CHR 0xD0, CHR 0xBC, CHR 0xD0,
      CHR 0xB8] @ ''?''"

text \<open>
  The physical activity frequency by age group (lines 817-834), with the figures of its
  chart summary: the age group with the highest share of "Several times a week" and that
  share. \<open>None\<close> when the section is skipped.
\<close>

definition freq_by_age_summary :: "dataframe \<Rightarrow> (error + string \<times> real) option" where
  "freq_by_age_summary filtered_df =
     (if activity_freq_col \<in> set (columns filtered_df) \<and>
         ''client_age_range'' \<in> set (columns filtered_df)
      then let activity_by_age =
                 crosstab_index_percent (map (\<lambda>r. cat r ''client_age_range'') (rows filtered_df))
                   (map (\<lambda>r. cat r activity_freq_col) (rows filtered_df))
           in Some (case ct_getitem activity_by_age ''Several times a week'' of
                      Inl e \<Rightarrow> Inl e
                    | Inr series \<Rightarrow>
                        (case idxmax series of
                           Inl e \<Rightarrow> Inl e
                         | Inr most_active_age \<Rightarrow>
                             Inr (most_active_age, Max (set (map snd series)))))
      else None)"

section \<open>General health self-assessment (lines 905 and 969-1010)\<close>

text \<open>
  Texts outside ASCII are the bytes of their UTF-8 encoding, as in the CSV file. The
  column of the physical support rating, "If you received equipment, medicine or other
  medical help, how do you think it affected your physical condition and standard of
  living, on a scale from 1 to 10 ...?" (in Russian, with the space that ends it):
\<close>

definition physical_rating_col :: string where
  "physical_rating_col =
     [CHR 0xD0, CHR 0x95, CHR 0xD1, CHR 0x81, CHR 0xD0, CHR 0xBB, CHR 0xD0, CHR 0xB8] @ '' '' @
      [CHR 0xD0, CHR 0xB2, CHR 0xD1, CHR 0x8B] @ '' '' @ [CHR 0xD0, CHR 0xBF, CHR 0xD0,
      CHR 0xBE, CHR 0xD0, CHR 0xBB, CHR 0xD1, CHR 0x83, CHR 0xD1, CHR 0x87, CHR 0xD0, CHR 0xB0,
      CHR 0xD0, CHR 0xBB, CHR 0xD0, CHR 0xB8] @ '' '' @ [CHR 0xD0, CHR 0xBE, CHR 0xD0,
      CHR 0xB1, CHR 0xD0, CHR 0xBE, CHR 0xD1, CHR 0x80, CHR 0xD1, CHR 0x83, CHR 0xD0, CHR 0xB4,
      CHR 0xD0, CHR 0xBE, CHR 0xD0, CHR 0xB2, CHR 0xD0, CHR 0xB0, CHR 0xD0, CHR 0xBD, CHR 0xD0,
      CHR 0xB8, CHR 0xD0, CHR 0xB5] @ '', '' @ [CHR 0xD0, CHR 0xBB, CHR 0xD0, CHR 0xB5,
      CHR 0xD0, CHR 0xBA, CHR 0xD0, CHR 0xB0, CHR 0xD1, CHR 0x80, CHR 0xD1, CHR 0x81, CHR 0xD1,
      CHR 0x82, CHR 0xD0, CHR 0xB2, CHR 0xD0, CHR 0xB0] @ '' '' @ [CHR 0xD0, CHR 0xB8,
      CHR 0xD0, CHR 0xBB, CHR 0xD0, CHR 0xB8] @ '' '' @ [CHR 0xD0, CHR 0xB4, CHR 0xD1,
      CHR 0x80, CHR 0xD1, CHR 0x83, CHR 0xD0, CHR 0xB3, CHR 0xD1, CHR 0x83, CHR 0xD1,
      CHR 0x8E] @ '' '' @ [CHR 0xD0, CHR 0xBC, CHR 0xD0, CHR 0xB5, CHR 0xD0, CHR 0xB4,
      CHR 0xD0, CHR 0xB8, CHR 0xD1, CHR 0x86, CHR 0xD0, CHR 0xB8, CHR 0xD0, CHR 0xBD, CHR 0xD1,
      CHR 0x81, CHR 0xD0, CHR 0xBA, CHR 0xD1, CHR 0x83, CHR 0xD1, CHR 0x8E] @ '' '' @
      [CHR 0xD0, CHR 0xBF, CHR 0xD0, CHR 0xBE, CHR 0xD0, CHR 0xBC, CHR 0xD0, CHR 0xBE,
      CHR 0xD1, CHR 0x89, CHR 0xD1, CHR 0x8C] @ '', '' @ [CHR 0xD0, CHR 0xBA, CHR 0xD0,
      CHR 0xB0, CHR 0xD0, CHR 0xBA] @ '' '' @ [CHR 0xD0, CHR 0xB2, CHR 0xD1, CHR 0x8B] @
      '' '' @ [CHR 0xD0, CHR 0xB4, CHR 0xD1, CHR 0x83, CHR 0xD0, CHR 0xBC, CHR 0xD0, CHR 0xB0,
      CHR 0xD0, CHR 0xB5, CHR 0xD1, CHR 0x82, CHR 0xD0, CHR 0xB5] @ '', '' @ [CHR 0xD1,
      CHR 0x8D, CHR 0xD1, CHR 0x82, CHR 0xD0, CHR 0xBE] @ '' '' @ [CHR 0xD0, CHR 0xBF,
      CHR 0xD0, CHR 0xBE, CHR 0xD0, CHR 0xB2, CHR 0xD0, CHR 0xBB, CHR 0xD0, CHR 0xB8, CHR 0xD1,
      CHR 0x8F, CHR 0xD0, CHR 0xBB, CHR 0xD0, CHR 0xBE] @ '' '' @ [CHR 0xD0, CHR 0xBD,
      CHR 0xD0, CHR 0xB0] @ '' '' @ [CHR 0xD0, CHR 0xB2, CHR 0xD0, CHR 0xB0, CHR 0xD1,
      CHR 0x88, CHR 0xD0, CHR 0xB5] @ '' '' @ [CHR 0xD1, CHR 0x84, CHR 0xD0, CHR 0xB8,
      CHR 0xD0, CHR 0xB7, CHR 0xD0, CHR 0xB8, CHR 0xD1, CHR 0x87, CHR 0xD0, CHR 0xB5, CHR 0xD1,
      CHR 0x81, CHR 0xD0, CHR 0xBA, CHR 0xD0, CHR 0xBE, CHR 0xD0, CHR 0xB5] @ '' '' @
      [CHR 0xD1, CHR 0x81, CHR 0xD0, CHR 0xBE, CHR 0xD1, CHR 0x81, CHR 0xD1, CHR 0x82,
      CHR 0xD0, CHR 0xBE, CHR 0xD1, CHR 0x8F, CHR 0xD0, CHR 0xBD, CHR 0xD0, CHR 0xB8, CHR 0xD0,
      CHR 0xB5] @ '' '' @ [CHR 0xD0, CHR 0xB8] @ '' '' @ [CHR 0xD1, CHR 0x83, CHR 0xD1,
      CHR 0x80, CHR 0xD0, CHR 0xBE, CHR 0xD0, CHR 0xB2, CHR 0xD0, CHR 0xB5, CHR 0xD0, CHR 0xBD,
      CHR 0xD1, CHR 0x8C] @ '' '' @ [CHR 0xD0, CHR 0xB6, CHR 0xD0, CHR 0xB8, CHR 0xD0,
      CHR 0xB7, CHR 0xD0, CHR 0xBD, CHR 0xD0, CHR 0xB8] @ '' '' @ [CHR 0xD0, CHR 0xBF,
      CHR 0xD0, CHR 0xBE] @ '' '' @ [CHR 0xD1, CHR 0x88, CHR 0xD0, CHR 0xBA, CHR 0xD0,
      CHR 0xB0, CHR 0xD0, CHR 0xBB, CHR 0xD0, CHR 0xB5] @ '' '' @ [CHR 0xD0, CHR 0xBE,
      CHR 0xD1, CHR 0x82] @ '' 1 '' @ [CHR 0xD0, CHR 0xB4, CHR 0xD0, CHR 0xBE] @ '' 10 (1 '' @
      [CHR 0xE2, CHR 0x80, CHR 0x94] @ '' '' @ [CHR 0xD0, CHR 0xBD, CHR 0xD0, CHR 0xB5] @
      '' '' @ [CHR 0xD0, CHR 0xBF, CHR 0xD0, CHR 0xBE, CHR 0xD0, CHR 0xB2, CHR 0xD0, CHR 0xBB,
      CHR 0xD0, CHR 0xB8, CHR 0xD1, CHR 0x8F, CHR 0xD0, CHR 0xBB, CHR 0xD0, CHR 0xBE] @ '' '' @
      [CHR 0xD0, CHR 0xB2, CHR 0xD0, CHR 0xBE, CHR 0xD0, CHR 0xBE, CHR 0xD0, CHR 0xB1,
      CHR 0xD1, CHR 0x89, CHR 0xD0, CHR 0xB5] @ '', 10 '' @ [CHR 0xE2, CHR 0x80, CHR 0x94] @
      '' '' @ [CHR 0xD0, CHR 0xBC, CHR 0xD0, CHR 0xB0, CHR 0xD0, CHR 0xBA, CHR 0xD1, CHR 0x81,
      CHR 0xD0, CHR 0xB8, CHR 0xD0, CHR 0xBC, CHR 0xD0, CHR 0xB0, CHR 0xD0, CHR 0xBB, CHR 0xD1,
      CHR 0x8C, CHR 0xD0, CHR 0xBD, CHR 0xD1, CHR 0x8B, CHR 0xD0, CHR 0xB9] @ '' '' @
      [CHR 0xD1, CHR 0x8D, CHR 0xD1, CHR 0x84, CHR 0xD1, CHR 0x84, CHR 0xD0, CHR 0xB5,
      CHR 0xD0, CHR 0xBA, CHR 0xD1, CHR 0x82] @ '')? ''"

text \<open>
  The column of the question "In general, how would you describe your health?" (in
  Russian):
\<close>

definition health_col :: string where
  "health_col =
     [CHR 0xD0, CHR 0x92] @ '' '' @ [CHR 0xD1, CHR 0x86, CHR 0xD0, CHR 0xB5, CHR 0xD0,
      CHR 0xBB, CHR 0xD0, CHR 0xBE, CHR 0xD0, CHR 0xBC] @ '', '' @ [CHR 0xD0, CHR 0xBA,
      CHR 0xD0, CHR 0xB0, CHR 0xD0, CHR 0xBA] @ '' '' @ [CHR 0xD0, CHR 0xB1, CHR 0xD1,
      CHR 0x8B] @ '' '' @ [CHR 0xD0, CHR 0x92, CHR 0xD1, CHR 0x8B] @ '' '' @ [CHR 0xD0,
      CHR 0xBE, CHR 0xD1, CHR 0x85, CHR 0xD0, CHR 0xB0, CHR 0xD1, CHR 0x80, CHR 0xD0, CHR 0xB0,
      CHR 0xD0, CHR 0xBA, CHR 0xD1, CHR 0x82, CHR 0xD0, CHR 0xB5, CHR 0xD1, CHR 0x80, CHR 0xD0,
      CHR 0xB8, CHR 0xD0, CHR 0xB7, CHR 0xD0, CHR 0xBE, CHR 0xD0, CHR 0xB2, CHR 0xD0, CHR 0xB0,
      CHR 0xD0, CHR 0xBB, CHR 0xD0, CHR 0xB8] @ '' '' @ [CHR 0xD1, CHR 0x81, CHR 0xD0,
      CHR 0xB2, CHR 0xD0, CHR 0xBE, CHR 0xD1, CHR 0x91] @ '' '' @ [CHR 0xD0, CHR 0xB7,
      CHR 0xD0, CHR 0xB4, CHR 0xD0, CHR 0xBE, CHR 0xD1, CHR 0x80, CHR 0xD0, CHR 0xBE, CHR 0xD0,
      CHR 0xB2, CHR 0xD1, CHR 0x8C, CHR 0xD0, CHR 0xB5] @ ''?''"

text \<open>The Russian answers \<^verbatim>\<open>'1. ...'\<close> to \<^verbatim>\<open>'5. ...'\<close>, the keys of the mappings below.\<close>

definition ru_excellent :: string where
  "ru_excellent =
     ''1. '' @ [CHR 0xD0, CHR 0x9E, CHR 0xD1, CHR 0x82, CHR 0xD0, CHR 0xBB, CHR 0xD0, CHR 0xB8,
      CHR 0xD1, CHR 0x87, CHR 0xD0, CHR 0xBD, CHR 0xD0, CHR 0xBE, CHR 0xD0, CHR 0xB5]"

definition ru_very_good :: string where
  "ru_very_good =
     ''2. '' @ [CHR 0xD0, CHR 0x9E, CHR 0xD1, CHR 0x87, CHR 0xD0, CHR 0xB5, CHR 0xD0, CHR 0xBD,
      CHR 0xD1, CHR 0x8C] @ '' '' @ [CHR 0xD1, CHR 0x85, CHR 0xD0, CHR 0xBE, CHR 0xD1,
      CHR 0x80, CHR 0xD0, CHR 0xBE, CHR 0xD1, CHR 0x88, CHR 0xD0, CHR 0xB5, CHR 0xD0, CHR 0xB5]"

definition ru_good :: string where
  "ru_good =
     ''3. '' @ [CHR 0xD0, CHR 0xA5, CHR 0xD0, CHR 0xBE, CHR 0xD1, CHR 0x80, CHR 0xD0, CHR 0xBE,
      CHR 0xD1, CHR 0x88, CHR 0xD0, CHR 0xB5, CHR 0xD0, CHR 0xB5]"

definition ru_satisfactory :: string where
  "ru_satisfactory =
     ''4. '' @ [CHR 0xD0, CHR 0xA3, CHR 0xD0, CHR 0xB4, CHR 0xD0, CHR 0xBE, CHR 0xD0, CHR 0xB2,
      CHR 0xD0, CHR 0xBB, CHR 0xD0, CHR 0xB5, CHR 0xD1, CHR 0x82, CHR 0xD0, CHR 0xB2, CHR 0xD0,
      CHR 0xBE, CHR 0xD1, CHR 0x80, CHR 0xD0, CHR 0xB8, CHR 0xD1, CHR 0x82, CHR 0xD0, CHR 0xB5,
      CHR 0xD0, CHR 0xBB, CHR 0xD1, CHR 0x8C, CHR 0xD0, CHR 0xBD, CHR 0xD0, CHR 0xBE, CHR 0xD0,
      CHR 0xB5]"

definition ru_bad :: string where
  "ru_bad =
     ''5. '' @ [CHR 0xD0, CHR 0x9F, CHR 0xD0, CHR 0xBB, CHR 0xD0, CHR 0xBE, CHR 0xD1, CHR 0x85,
      CHR 0xD0, CHR 0xBE, CHR 0xD0, CHR 0xB5]"

text \<open>
  An entry of \<^verbatim>\<open>health_mapping\<close>: the rank and the label in the three languages.
  \<^verbatim>\<open>language_code_map\<close> sends the language chosen in the sidebar to the key of its label.
\<close>

record health_entry =
  order :: nat
  en :: string
  uk :: string
  ru :: string

datatype language = English | Ukrainian | Russian

fun language_code_map :: "language \<Rightarrow> health_entry \<Rightarrow> string" where
  "language_code_map English = en"
| "language_code_map Ukrainian = uk"
| "language_code_map Russian = ru"

definition health_entry_1 :: health_entry where
  "health_entry_1 =
     \<lparr>order = 1, en = ''Excellent'',
      uk =
        [CHR 0xD0, CHR 0x92, CHR 0xD1, CHR 0x96, CHR 0xD0, CHR 0xB4, CHR 0xD0, CHR 0xBC,
         CHR 0xD1, CHR 0x96, CHR 0xD0, CHR 0xBD, CHR 0xD0, CHR 0xBD, CHR 0xD0, CHR 0xB5],
      ru =
        [CHR 0xD0, CHR 0x9E, CHR 0xD1, CHR 0x82, CHR 0xD0, CHR 0xBB, CHR 0xD0, CHR 0xB8,
         CHR 0xD1, CHR 0x87, CHR 0xD0, CHR 0xBD, CHR 0xD0, CHR 0xBE, CHR 0xD0, CHR 0xB5]\<rparr>"

definition health_entry_2 :: health_entry where
  "health_entry_2 =
     \<lparr>order = 2, en = ''Very good'',
      uk =
        [CHR 0xD0, CHR 0x94, CHR 0xD1, CHR 0x83, CHR 0xD0, CHR 0xB6, CHR 0xD0, CHR 0xB5] @
         '' '' @ [CHR 0xD0, CHR 0xB4, CHR 0xD0, CHR 0xBE, CHR 0xD0, CHR 0xB1, CHR 0xD1,
         CHR 0x80, CHR 0xD0, CHR 0xB5],
      ru =
        [CHR 0xD0, CHR 0x9E, CHR 0xD1, CHR 0x87, CHR 0xD0, CHR 0xB5, CHR 0xD0, CHR 0xBD,
         CHR 0xD1, CHR 0x8C] @ '' '' @ [CHR 0xD1, CHR 0x85, CHR 0xD0, CHR 0xBE, CHR 0xD1,
         CHR 0x80, CHR 0xD0, CHR 0xBE, CHR 0xD1, CHR 0x88, CHR 0xD0, CHR 0xB5, CHR 0xD0,
         CHR 0xB5]\<rparr>"

definition health_entry_3 :: health_entry where
  "health_entry_3 =
     \<lparr>order = 3, en = ''Good'',
      uk =
        [CHR 0xD0, CHR 0x94, CHR 0xD0, CHR 0xBE, CHR 0xD0, CHR 0xB1, CHR 0xD1, CHR 0x80,
         CHR 0xD0, CHR 0xB5],
      ru =
        [CHR 0xD0, CHR 0xA5, CHR 0xD0, CHR 0xBE, CHR 0xD1, CHR 0x80, CHR 0xD0, CHR 0xBE,
         CHR 0xD1, CHR 0x88, CHR 0xD0, CHR 0xB5, CHR 0xD0, CHR 0xB5]\<rparr>"

definition health_entry_4 :: health_entry where
  "health_entry_4 =
     \<lparr>order = 4, en = ''Satisfactory'',
      uk =
        [CHR 0xD0, CHR 0x97, CHR 0xD0, CHR 0xB0, CHR 0xD0, CHR 0xB4, CHR 0xD0, CHR 0xBE,
         CHR 0xD0, CHR 0xB2, CHR 0xD1, CHR 0x96, CHR 0xD0, CHR 0xBB, CHR 0xD1, CHR 0x8C,
         CHR 0xD0, CHR 0xBD, CHR 0xD0, CHR 0xB5],
      ru =
        [CHR 0xD0, CHR 0xA3, CHR 0xD0, CHR 0xB4, CHR 0xD0, CHR 0xBE, CHR 0xD0, CHR 0xB2,
         CHR 0xD0, CHR 0xBB, CHR 0xD0, CHR 0xB5, CHR 0xD1, CHR 0x82, CHR 0xD0, CHR 0xB2,
         CHR 0xD0, CHR 0xBE, CHR 0xD1, CHR 0x80, CHR 0xD0, CHR 0xB8, CHR 0xD1, CHR 0x82,
         CHR 0xD0, CHR 0xB5, CHR 0xD0, CHR 0xBB, CHR 0xD1, CHR 0x8C, CHR 0xD0, CHR 0xBD,
         CHR 0xD0, CHR 0xBE, CHR 0xD0, CHR 0xB5]\<rparr>"

definition health_entry_5 :: health_entry where
  "health_entry_5 =
     \<lparr>order = 5, en = ''Bad'',
      uk =
        [CHR 0xD0, CHR 0x9F, CHR 0xD0, CHR 0xBE, CHR 0xD0, CHR 0xB3, CHR 0xD0, CHR 0xB0,
         CHR 0xD0, CHR 0xBD, CHR 0xD0, CHR 0xB5],
      ru =
        [CHR 0xD0, CHR 0x9F, CHR 0xD0, CHR 0xBB, CHR 0xD0, CHR 0xBE, CHR 0xD1, CHR 0x85,
         CHR 0xD0, CHR 0xBE, CHR 0xD0, CHR 0xB5]\<rparr>"

definition health_mapping :: "(string \<times> health_entry) list" where
  "health_mapping =
     [(ru_excellent, health_entry_1), (ru_very_good, health_entry_2), (ru_good, health_entry_3),
      (ru_satisfactory, health_entry_4), (ru_bad, health_entry_5),
      (''4. Satisfactory'', health_entry_4), (''3. Good'', health_entry_3),
      (''2. Very good'', health_entry_2), (''1. Excellent'', health_entry_1),
      (''5. Bad'', health_entry_5)]"

text \<open>\<^verbatim>\<open>d[k]\<close> on a dict: the value of the key, \<^verbatim>\<open>KeyError\<close> without it.\<close>

definition getitem :: "(string \<times> 'v) list \<Rightarrow> string \<Rightarrow> error + 'v" where
  "getitem d k = (case map_of d k of None \<Rightarrow> Inl (KeyError k) | Some v \<Rightarrow> Inr v)"

text \<open>
  \<^verbatim>\<open>series.map(f)\<close> with a function: \<open>f\<close> is applied to the values in turn, and the first
  exception it raises ends the computation.
\<close>

fun map_raising :: "('a \<Rightarrow> error + 'b) \<Rightarrow> 'a list \<Rightarrow> error + 'b list" where
  "map_raising f [] = Inr []"
| "map_raising f (x # xs) =
     (case f x of
        Inl e \<Rightarrow> Inl e
      | Inr y \<Rightarrow> (case map_raising f xs of Inl e \<Rightarrow> Inl e | Inr ys \<Rightarrow> Inr (y # ys)))"

text \<open>
  The section is part of the block of the physical support rating: it is entered when the
  schema has that column (line 905) and the health column (line 969). The code of the
  block before it (the mean and the distribution of the rating, the health control chart)
  raises nothing on a numeric rating column. The rows of the chart's table are (label,
  count, sort order, percentage). \<open>None\<close> when the section is skipped, \<open>Inl\<close> when it raises.
\<close>

definition general_health_distribution ::
  "float_ops \<Rightarrow> language \<Rightarrow> dataframe \<Rightarrow> (error + (string \<times> nat \<times> nat \<times> real) list) option" where
  "general_health_distribution ops lang filtered_df =
     (if physical_rating_col \<in> set (columns filtered_df)
      then if health_col \<in> set (columns filtered_df)
           then let general_health_counts =
                      value_counts (map (\<lambda>r. cat r health_col) (rows filtered_df))
                in Some
                    (case map_raising (\<lambda>(x, n). case getitem health_mapping x of
                                                   Inl e \<Rightarrow> Inl e
                                                 | Inr entry \<Rightarrow> Inr (x, n, order entry))
                            general_health_counts of
                       Inl e \<Rightarrow> Inl e
                     | Inr with_order \<Rightarrow>
                         (case map_raising (\<lambda>(x, n, k). case getitem health_mapping x of
                                                          Inl e \<Rightarrow> Inl e
                                                        | Inr entry \<Rightarrow>
                                                            Inr (language_code_map lang entry, n, k))
                                 with_order of
                            Inl e \<Rightarrow> Inl e
                          | Inr translated \<Rightarrow>
                              (let sorted_counts = sort_key (\<lambda>(x, n, k). k) translated;
                                   total = sum_list (map (\<lambda>(x, n, k). n) sorted_counts)
                               in Inr (if total > 0
                                       then map (\<lambda>(x, n, k).
                                              (x, n, k,
                                               f_round ops 1
                                                 (f_mul ops (f_div ops (real n) (real total)) 100)))
                                              sorted_counts
                                       else map (\<lambda>(x, n, k). (x, n, k, 0)) sorted_counts))))
           else None
      else None)"

section \<open>Hypothesis evaluator\<close>

text \<open>
  \<^verbatim>\<open>df.groupby(key)\<close>: one group per observed key, the keys sorted; a row whose key is NaN
  is in no group. \<^verbatim>\<open>mean\<close> and \<^verbatim>\<open>count\<close> of a column skip NaN; the mean of no value is NaN
  (\<open>None\<close>). A comparison with NaN is false.
\<close>

definition groupby :: "('r \<Rightarrow> 'k::linorder option) \<Rightarrow> 'r list \<Rightarrow> ('k \<times> 'r list) list" where
  "groupby key rs =
     map (\<lambda>k. (k, filter (\<lambda>r. key r = Some k) rs)) (sort (remdups (dropna (map key rs))))"

text \<open>The mean of a group of \<^verbatim>\<open>groupby(...).agg\<close>, and \<^verbatim>\<open>series.mean()\<close>.\<close>

definition group_mean :: "float_ops \<Rightarrow> real option list \<Rightarrow> real option" where
  "group_mean ops cells =
     (let xs = dropna cells in if xs = [] then None else Some (f_group_mean ops xs))"

definition series_mean :: "float_ops \<Rightarrow> real option list \<Rightarrow> real option" where
  "series_mean ops cells =
     (let xs = dropna cells in if xs = [] then None else Some (f_mean ops xs))"

text \<open>The mean without rounding error, the mean of \<open>exact_arithmetic\<close> below.\<close>

definition mean :: "real option list \<Rightarrow> real option" where
  "mean cells =
     (let xs = dropna cells in if xs = [] then None else Some (sum_list xs / real (length xs)))"

definition count :: "'a option list \<Rightarrow> nat" where
  "count cells = length (dropna cells)"

definition nan_less :: "real option \<Rightarrow> real option \<Rightarrow> bool" where
  "nan_less a b = (case (a, b) of (Some x, Some y) \<Rightarrow> x < y | _ \<Rightarrow> False)"

subsection \<open>Hypothesis 2: new clients' satisfaction (lines 1122-1155)\<close>

definition rating_col :: string where
  "rating_col =
     ''How would you rate the help you receive (1 - it'' @
     [CHR 0x27] @
     ''s not enough, 5 - everything is perfect)?''"

text \<open>
  \<^verbatim>\<open>filtered_df[duration_col].str.contains('1-3', na=False)\<close>: the pattern has no special
  character, so it matches the texts that contain \<^verbatim>\<open>1-3\<close>; a missing duration gives False.
  On a duration column that is not textual the \<^verbatim>\<open>.str\<close> accessor raises (see
  \<open>hypothesis_2\<close>).
\<close>

definition is_new_client :: "row \<Rightarrow> bool" where
  "is_new_client r = (case cat r duration_column of None \<Rightarrow> False | Some s \<Rightarrow> sublist ''1-3'' s)"

text \<open>
  \<^verbatim>\<open>filtered_df.groupby('is_new_client')[rating_col].agg(['mean', 'count']).round(2)\<close>: per
  group the mean of the ratings, rounded to two decimals, and the number of ratings.
\<close>

definition satisfaction_by_duration ::
  "float_ops \<Rightarrow> dataframe \<Rightarrow> (bool \<times> real option \<times> nat) list" where
  "satisfaction_by_duration ops filtered_df =
     map (\<lambda>(k, members).
            (k, map_option (f_round ops 2) (group_mean ops (map (\<lambda>r. num r rating_col) members)),
                count (map (\<lambda>r. num r rating_col) members)))
       (groupby (\<lambda>r. Some (is_new_client r)) (rows filtered_df))"

text \<open>
  \<^verbatim>\<open>table.loc[k] if k in table.index else pd.Series({'mean': 0, 'count': 0})\<close>
\<close>

definition loc_or_zero :: "(bool \<times> real option \<times> nat) list \<Rightarrow> bool \<Rightarrow> real option \<times> nat" where
  "loc_or_zero table k = (case map_of table k of Some s \<Rightarrow> s | None \<Rightarrow> (Some 0, 0))"

datatype h2_conclusion = H2_supported | H2_not_supported

record h2_report =
  new_clients :: "real option \<times> nat"
  existing_clients :: "real option \<times> nat"
  h2_verdict :: h2_conclusion

text \<open>
  \<open>None\<close> when the section is skipped. \<open>duration_dtype\<close> is the dtype of the duration
  column: on a column that is not textual (a column of the CSV file without any value)
  line 1127 raises \<^verbatim>\<open>AttributeError\<close>.
\<close>

definition hypothesis_2 :: "float_ops \<Rightarrow> dtype \<Rightarrow> dataframe \<Rightarrow> (error + h2_report) option" where
  "hypothesis_2 ops duration_dtype filtered_df =
     (if duration_column \<in> set (columns filtered_df) \<and> rating_col \<in> set (columns filtered_df)
      then if duration_dtype \<noteq> Object then Some (Inl AttributeError)
           else let table = satisfaction_by_duration ops filtered_df;
                    new = loc_or_zero table True;
                    existing = loc_or_zero table False
                in Some (Inr \<lparr>new_clients = new, existing_clients = existing,
                              h2_verdict = (if nan_less (fst new) (fst existing) then H2_supported
                                            else H2_not_supported)\<rparr>)
      else None)"

subsection \<open>Hypothesis 1: activity preferences by age (lines 1038-1114)\<close>

definition physical_cols :: "string list" where
  "physical_cols = [''Physical rehabilitation'', ''Physical activities'']"

definition psycho_cols :: "string list" where
  "psycho_cols =
     [''Social events'', ''Psychological support (group)'', ''Psychological support (individual)'']"

text \<open>
  \<^verbatim>\<open>filtered_df[cols].sum(axis=1)\<close> counts NaN as 0; the row's percent column divides the
  sum by the number of available columns (0 if there is none).
\<close>

definition row_sum :: "float_ops \<Rightarrow> string list \<Rightarrow> row \<Rightarrow> real" where
  "row_sum ops cols r = f_sum ops (map (\<lambda>col. case num r col of None \<Rightarrow> 0 | Some x \<Rightarrow> x) cols)"

definition row_percent :: "float_ops \<Rightarrow> string list \<Rightarrow> row \<Rightarrow> real" where
  "row_percent ops available r =
     (if length available > 0 then f_div ops (row_sum ops available r) (real (length available))
      else 0)"

datatype h1_conclusion =
  H1_supported | H1_partially_physical | H1_partially_psychosocial | H1_not_supported

text \<open>
  The rows of the table \<open>age_activity_pref\<close> are (age bracket, physical percent, psychosocial percent,
  client count).
\<close>

record h1_report =
  h1_table :: "(string \<times> real option \<times> real option \<times> nat) list"
  h1_younger_physical :: "real option"
  h1_older_physical :: "real option"
  h1_younger_psycho :: "real option"
  h1_older_psycho :: "real option"
  h1_verdict :: h1_conclusion

text \<open>
  \<^verbatim>\<open>filtered_df_no_unknown.groupby('client_age_range').agg({'physical_percent': 'mean',
  'psychosocial_percent': 'mean', 'ID': 'count'})\<close>, with the two means multiplied by 100.
\<close>

definition age_activity_table ::
  "float_ops \<Rightarrow> string list \<Rightarrow> string list \<Rightarrow> row list \<Rightarrow>
   (string \<times> real option \<times> real option \<times> nat) list" where
  "age_activity_table ops available_physical available_psycho filtered_df_no_unknown =
     map (\<lambda>(age, members).
            (age,
             map_option (\<lambda>m. f_mul ops m 100)
               (group_mean ops (map (\<lambda>r. Some (row_percent ops available_physical r)) members)),
             map_option (\<lambda>m. f_mul ops m 100)
               (group_mean ops (map (\<lambda>r. Some (row_percent ops available_psycho r)) members)),
             count (map (\<lambda>r. cat r ''ID'') members)))
       (groupby (\<lambda>r. cat r ''client_age_range'') filtered_df_no_unknown)"

text \<open>
  \<^verbatim>\<open>table.loc[table['client_age_range'].isin(brackets), 'physical_percent'].mean()\<close>, and
  the same for \<^verbatim>\<open>'psychosocial_percent'\<close>.
\<close>

definition physical_mean ::
  "float_ops \<Rightarrow> (string \<times> real option \<times> real option \<times> nat) list \<Rightarrow> string list \<Rightarrow> real option" where
  "physical_mean ops table brackets =
     series_mean ops (map (\<lambda>(age, physical, psycho, n). physical)
                        (filter (\<lambda>(age, p). age \<in> set brackets) table))"

definition psycho_mean ::
  "float_ops \<Rightarrow> (string \<times> real option \<times> real option \<times> nat) list \<Rightarrow> string list \<Rightarrow> real option" where
  "psycho_mean ops table brackets =
     series_mean ops (map (\<lambda>(age, physical, psycho, n). psycho)
                        (filter (\<lambda>(age, p). age \<in> set brackets) table))"

text \<open>The \<^verbatim>\<open>if\<close>/\<^verbatim>\<open>elif\<close> chain of the conclusion (lines 1105-1112).\<close>

definition h1_conclude ::
  "real option \<Rightarrow> real option \<Rightarrow> real option \<Rightarrow> real option \<Rightarrow> h1_conclusion" where
  "h1_conclude younger_physical older_physical younger_psycho older_psycho =
     (if nan_less older_physical younger_physical \<and> nan_less younger_psycho older_psycho
      then H1_supported
      else if nan_less older_physical younger_physical then H1_partially_physical
      else if nan_less younger_psycho older_psycho then H1_partially_psychosocial
      else H1_not_supported)"

text \<open>
  \<open>None\<close> when the section is skipped. The aggregation names the column \<^verbatim>\<open>ID\<close> and
  raises \<^verbatim>\<open>KeyError\<close> when the schema does not have it.
\<close>

definition hypothesis_1 :: "float_ops \<Rightarrow> dataframe \<Rightarrow> (error + h1_report) option" where
  "hypothesis_1 ops filtered_df =
     (if ''client_age_range'' \<in> set (columns filtered_df)
      then let available_physical = filter (\<lambda>col. col \<in> set (columns filtered_df)) physical_cols;
               available_psycho = filter (\<lambda>col. col \<in> set (columns filtered_df)) psycho_cols
           in if available_physical \<noteq> [] \<and> available_psycho \<noteq> []
              then let filtered_df_no_unknown =
                         filter (\<lambda>r. cat r ''client_age_range'' \<noteq> Some ''unknown'') (rows filtered_df)
                   in if ''ID'' \<notin> set (columns filtered_df) then Some (Inl (KeyError ''ID''))
                      else let age_activity_pref =
                                 age_activity_table ops available_physical available_psycho
                                   filtered_df_no_unknown;
                               younger_physical =
                                 physical_mean ops age_activity_pref [''18-54'', ''55-69''];
                               older_physical =
                                 physical_mean ops age_activity_pref [''70-85'', ''85+''];
                               younger_psycho =
                                 psycho_mean ops age_activity_pref [''18-54'', ''55-69''];
                               older_psycho =
                                 psycho_mean ops age_activity_pref [''70-85'', ''85+'']
                           in Some (Inr
                                \<lparr>h1_table = age_activity_pref,
                                 h1_younger_physical = younger_physical,
                                 h1_older_physical = older_physical,
                                 h1_younger_psycho = younger_psycho,
                                 h1_older_psycho = older_psycho,
                                 h1_verdict = h1_conclude younger_physical older_physical
                                                younger_psycho older_psycho\<rparr>)
              else None
      else None)"

text \<open>
  To state what hypothesis 1 computes: the age brackets of the table, which are the
  observed brackets other than \<^verbatim>\<open>unknown\<close>, sorted; and, for one bracket, the grouped mean
  over the rows of the bracket of the row percent of a group of columns, times 100 (NaN,
  \<open>None\<close>, when no row is in the bracket).
\<close>

definition known_brackets :: "dataframe \<Rightarrow> string list" where
  "known_brackets df =
     sort (remdups (filter (\<lambda>age. age \<noteq> ''unknown'')
                      (dropna (map (\<lambda>r. cat r ''client_age_range'') (rows df)))))"

definition bracket_percent :: "float_ops \<Rightarrow> dataframe \<Rightarrow> string list \<Rightarrow> string \<Rightarrow> real option" where
  "bracket_percent ops df cols bracket =
     map_option (\<lambda>m. f_mul ops m 100)
       (group_mean ops
          (map (\<lambda>r. Some (row_percent ops (filter (\<lambda>col. col \<in> set (columns df)) cols) r))
             (filter (\<lambda>r. cat r ''client_age_range'' = Some bracket) (rows df))))"

subsection \<open>Hypothesis 3: program duration and health (lines 1163-1247)\<close>

definition health_score_mapping :: "(string \<times> real) list" where
  "health_score_mapping =
     [(ru_excellent, 5), (ru_very_good, 4), (ru_good, 3), (ru_satisfactory, 2), (ru_bad, 1),
      (''1. Excellent'', 5), (''2. Very good'', 4), (''3. Good'', 3), (''4. Satisfactory'', 2),
      (''5. Bad'', 1)]"

definition duration_order :: "(string \<times> real) list" where
  "duration_order =
     [(''1-3 months'', 1), (''3-6 months'', 2), (''6-12 months'', 3), (''1-2 years'', 4),
      (''More than 2 years'', 5), (''more than 2 years'', 5)]"

text \<open>
  \<^verbatim>\<open>series.map(d)\<close> with a dict: the value of the cell's text, NaN for a text that is not a
  key and for NaN.
\<close>

definition series_map :: "(string \<times> 'v) list \<Rightarrow> string option \<Rightarrow> 'v option" where
  "series_map d c = (case c of None \<Rightarrow> None | Some s \<Rightarrow> map_of d s)"

definition health_score :: "row \<Rightarrow> real option" where
  "health_score r = series_map health_score_mapping (cat r health_col)"

definition duration_score :: "row \<Rightarrow> real option" where
  "duration_score r = series_map duration_order (cat r duration_column)"

text \<open>
  \<^verbatim>\<open>a.corr(b)\<close> is pandas' Pearson correlation. It keeps the positions where both series
  have a value, returns NaN when none is left, and otherwise \<^verbatim>\<open>numpy.corrcoef\<close> of the two:
  the covariance divided by the two standard deviations (all with \<open>n - 1\<close> in the
  denominator), clipped to \<open>[-1, 1]\<close>. \<open>pearson\<close> is that computation without rounding error.
  It is NaN when fewer than two positions are left (one: the division by \<open>n - 1 = 0\<close>) and
  when a variance is 0 (the quotient 0 / 0); the scores of hypothesis 3 are small whole
  numbers, whose sums and means are exact in doubles, so these cases are the same on
  doubles.
\<close>

definition complete_pairs :: "'a option list \<Rightarrow> 'b option list \<Rightarrow> ('a \<times> 'b) list" where
  "complete_pairs a b =
     concat (map (\<lambda>(x, y). case (x, y) of (Some u, Some v) \<Rightarrow> [(u, v)] | _ \<Rightarrow> []) (zip a b))"

definition pearson :: "(real \<times> real) list \<Rightarrow> real option" where
  "pearson pairs =
     (let n = length pairs
      in if n < 2 then None
         else let mx = sum_list (map fst pairs) / real n;
                  my = sum_list (map snd pairs) / real n;
                  cxy = sum_list (map (\<lambda>(x, y). (x - mx) * (y - my)) pairs) / real (n - 1);
                  cxx = sum_list (map (\<lambda>(x, y). (x - mx) * (x - mx)) pairs) / real (n - 1);
                  cyy = sum_list (map (\<lambda>(x, y). (y - my) * (y - my)) pairs) / real (n - 1)
              in if cxx = 0 \<or> cyy = 0 then None
                 else Some (max (- 1) (min 1 (cxy / sqrt cxx / sqrt cyy))))"

definition corr :: "real option list \<Rightarrow> real option list \<Rightarrow> real option" where
  "corr a b = pearson (complete_pairs a b)"

datatype h3_conclusion =
  H3_no_significant_correlation | H3_supported_positive | H3_not_supported_negative

text \<open>
  The \<^verbatim>\<open>if abs(correlation) < 0.1: ... elif correlation > 0.1: ... else: ...\<close> chain
  (lines 1242-1247). The literal \<^verbatim>\<open>0.1\<close> is a double, the one nearest to one tenth:
  \<open>3602879701896397 / 2 ^ 55\<close>, a little above one tenth.
\<close>

definition literal_0_1 :: real where
  "literal_0_1 = 3602879701896397 / 2 ^ 55"

definition h3_conclude :: "real option \<Rightarrow> h3_conclusion" where
  "h3_conclude correlation =
     (if nan_less (map_option abs correlation) (Some literal_0_1)
      then H3_no_significant_correlation
      else if nan_less (Some literal_0_1) correlation then H3_supported_positive
      else H3_not_supported_negative)"

text \<open>
  The table under the chart: per duration the mean health score, rounded to two decimals,
  and the number of scores, sorted by \<^verbatim>\<open>duration_order\<close> (a duration that is not a key
  comes last).
\<close>

definition health_by_duration :: "dataframe \<Rightarrow> (string \<times> real option \<times> nat) list" where
  "health_by_duration filtered_df =
     sort_values_na_last (\<lambda>(duration, p). map_of duration_order duration)
       (map (\<lambda>(duration, members).
               (duration, map_option (round_decimals 2) (mean (map health_score members)),
                count (map health_score members)))
          (groupby (\<lambda>r. cat r duration_column) (rows filtered_df)))"

record h3_report =
  h3_table :: "(string \<times> real option \<times> nat) list"
  h3_correlation :: "real option"
  h3_verdict :: h3_conclusion

definition hypothesis_3 :: "dataframe \<Rightarrow> h3_report option" where
  "hypothesis_3 filtered_df =
     (if duration_column \<in> set (columns filtered_df) \<and> health_col \<in> set (columns filtered_df)
      then let correlation = corr (map duration_score (rows filtered_df))
                               (map health_score (rows filtered_df))
           in Some \<lparr>h3_table = health_by_duration filtered_df,
                    h3_correlation = correlation,
                    h3_verdict = h3_conclude correlation\<rparr>
      else None)"




text \<open>The operations without rounding error.\<close>

definition exact_arithmetic :: float_ops where
  "exact_arithmetic =
     \<lparr>f_sum = sum_list,
      f_group_mean = (\<lambda>xs. sum_list xs / real (length xs)),
      f_mean = (\<lambda>xs. sum_list xs / real (length xs)),
      f_div = (\<lambda>a b. a / b),
      f_mul = (\<lambda>a b. a * b),
      f_round = round_decimals\<rparr>"



definition scored_rows :: "dataframe \<Rightarrow> (real \<times> real) list" where
  "scored_rows df =
     List.map_filter
       (\<lambda>r. case (duration_score r, health_score r) of
               (Some d, Some h) \<Rightarrow> Some (d, h)
             | _ \<Rightarrow> None)
       (rows df)"

section \<open>Example tables\<close>

text \<open>A row from its non-empty cells; every other cell is NaN.\<close>

definition mk_row :: "(string \<times> string) list \<Rightarrow> (string \<times> real) list \<Rightarrow> row" where
  "mk_row cs ns = \<lparr>cat = map_of cs, num = map_of ns\<rparr>"

definition row_ua_f :: row where
  "row_ua_f = mk_row [(''country'', ''UA''), (''client_gender'', ''female'')] []"

definition row_md_m :: row where
  "row_md_m = mk_row [(''country'', ''MD''), (''client_gender'', ''male'')] []"

definition row_no_country :: row where
  "row_no_country = mk_row [(''client_gender'', ''female'')] []"

definition table_two :: dataframe where
  "table_two = \<lparr>columns = [''country'', ''client_gender''], rows = [row_ua_f, row_md_m]\<rparr>"

definition table_missing :: dataframe where
  "table_missing =
     \<lparr>columns = [''country'', ''client_gender''], rows = [row_ua_f, row_no_country]\<rparr>"



definition table_no_rows :: dataframe where
  "table_no_rows =
     \<lparr>columns = [''client_gender'', ''client_age_range'', ''Diabetes'', ''Dementia'', activity_freq_col],
      rows = []\<rparr>"

definition health_row :: "string \<Rightarrow> row" where
  "health_row answer = mk_row [(health_col, answer)] []"

definition table_health :: dataframe where
  "table_health =
     \<lparr>columns = [physical_rating_col, health_col],
      rows = [health_row ''3. Good'', health_row ru_excellent, health_row ''3. Good'']\<rparr>"

definition table_health_unmapped :: dataframe where
  "table_health_unmapped =
     \<lparr>columns = [physical_rating_col, health_col],
      rows = [health_row ''3. Good'', health_row ''6. Very bad'']\<rparr>"

text \<open>The same rows in a schema without the physical support rating.\<close>

definition table_health_no_rating :: dataframe where
  "table_health_no_rating =
     \<lparr>columns = [health_col], rows = [health_row ''3. Good'', health_row ''6. Very bad'']\<rparr>"










definition h1_columns :: "string list" where
  "h1_columns = [''ID'', ''client_age_range'', ''Physical activities'', ''Social events'']"

definition h1_row :: "string \<Rightarrow> string \<Rightarrow> real \<Rightarrow> real \<Rightarrow> row" where
  "h1_row ident age physical social =
     mk_row [(''ID'', ident), (''client_age_range'', age)]
       [(''Physical activities'', physical), (''Social events'', social)]"

text \<open>
  Younger clients who take part in physical activities more, older clients who take part
  in social events more, and a client of unknown age.
\<close>

definition table_h1 :: dataframe where
  "table_h1 =
     \<lparr>columns = h1_columns,
      rows = [h1_row ''1'' ''18-54'' 1 0, h1_row ''2'' ''55-69'' 1 1, h1_row ''3'' ''55-69'' 0 0,
              h1_row ''4'' ''70-85'' 0 1, h1_row ''5'' ''85+'' 0 1, h1_row ''6'' ''unknown'' 1 1]\<rparr>"

text \<open>
  Younger clients ahead in physical activities and level with the older ones in social
  events; level in physical activities and behind in social events; and a table without
  older clients.
\<close>

definition table_h1_physical_only :: dataframe where
  "table_h1_physical_only =
     \<lparr>columns = h1_columns,
      rows = [h1_row ''1'' ''18-54'' 1 1, h1_row ''2'' ''70-85'' 0 1]\<rparr>"

definition table_h1_psycho_only :: dataframe where
  "table_h1_psycho_only =
     \<lparr>columns = h1_columns,
      rows = [h1_row ''1'' ''18-54'' 1 0, h1_row ''2'' ''70-85'' 1 1]\<rparr>"

definition table_h1_no_older :: dataframe where
  "table_h1_no_older =
     \<lparr>columns = h1_columns,
      rows = [h1_row ''1'' ''18-54'' 1 0, h1_row ''2'' ''unknown'' 0 1]\<rparr>"

definition h3_columns :: "string list" where
  "h3_columns = [duration_column, health_col]"

definition h3_row :: "string \<Rightarrow> string \<Rightarrow> row" where
  "h3_row duration health = mk_row [(duration_column, duration), (health_col, health)] []"






text \<open>
  One row with both answers and one without a health answer; and three rows of the same
  duration.
\<close>

definition table_h3_one_pair :: dataframe where
  "table_h3_one_pair =
     \<lparr>columns = h3_columns,
      rows = [h3_row ''1-3 months'' ''1. Excellent'', mk_row [(duration_column, ''1-2 years'')] []]\<rparr>"

definition table_h3_same_duration :: dataframe where
  "table_h3_same_duration =
     \<lparr>columns = h3_columns,
      rows = [h3_row ''1-2 years'' ''1. Excellent'', h3_row ''1-2 years'' ''3. Good'',
              h3_row ''1-2 years'' ''5. Bad'']\<rparr>"

section \<open>Properties of the filter engine\<close>

lemma apply_criterion_rows:
  "columns fdf = columns df \<Longrightarrow>
   apply_criterion df col values fdf = fdf\<lparr>rows := filter (passes df col values) (rows fdf)\<rparr>"
  unfolding apply_criterion_def select_isin_def passes_def [abs_def]
  by (cases "values \<noteq> [] \<and> col \<in> set (columns df)") auto

lemma filter_dataframe_rows:
  "filter_dataframe df c1 c2 c3 c4 c5 c6 c7 c8 =
     df\<lparr>rows := filter (passes_all df c1 c2 c3 c4 c5 c6 c7 c8) (rows df)\<rparr>"
  unfolding filter_dataframe_def Let_def passes_all_def [abs_def]
  by (simp add: apply_criterion_rows conj_commute conj_left_commute)

lemma filter_dataframe_columns:
  "columns (filter_dataframe df c1 c2 c3 c4 c5 c6 c7 c8) = columns df"
  by (simp add: filter_dataframe_rows)

lemma passes_all_filtered:
  "passes_all (filter_dataframe df c1 c2 c3 c4 c5 c6 c7 c8) d1 d2 d3 d4 d5 d6 d7 d8 =
   passes_all df d1 d2 d3 d4 d5 d6 d7 d8"
  by (simp add: passes_all_def [abs_def] passes_def [abs_def] filter_dataframe_columns)

text \<open>
  C4. A dimension whose criteria list is empty restricts nothing: the result keeps exactly
  the rows that pass every dimension, and a row passes a dimension as soon as that
  dimension's list is empty (or its column is not in the schema), whatever the row holds.
  With all eight lists empty the result is the input table itself.
\<close>

theorem filter_dataframe_empty_list_no_restriction:
  "filter_dataframe df c1 c2 c3 c4 c5 c6 c7 c8 =
     df\<lparr>rows := filter (passes_all df c1 c2 c3 c4 c5 c6 c7 c8) (rows df)\<rparr>
   \<and> passes df col [] r
   \<and> filter_dataframe df [] [] [] [] [] [] [] [] = df"
proof -
  have "passes df col [] r"
    by (simp add: passes_def)
  moreover have "filter_dataframe df [] [] [] [] [] [] [] [] = df"
    by (simp add: filter_dataframe_def apply_criterion_def)
  ultimately show ?thesis
    by (simp add: filter_dataframe_rows)
qed

theorem filter_dataframe_empty_list_no_restriction_witness:
  "rows (filter_dataframe table_missing [] [] [] [] [''female''] [] [] [])
     = [row_ua_f, row_no_country]
   \<and> passes table_missing ''country'' [] row_no_country
   \<and> filter_dataframe table_missing [] [] [] [] [] [] [] [] = table_missing"
  using filter_dataframe_empty_list_no_restriction
    [of table_missing "[]" "[]" "[]" "[]" "[''female'']" "[]" "[]" "[]" "''country''"
      row_no_country]
  by (simp add: passes_all_def passes_def isin_def table_missing_def row_ua_f_def
      row_no_country_def mk_row_def)

text \<open>
  C8. Filtering twice with the same criteria gives what filtering once gives, and the
  rows of the result are rows of the input, in the input's order: a subsequence of the
  input, never more.
\<close>

theorem filter_dataframe_idempotent_subset:
  "filter_dataframe (filter_dataframe T c1 c2 c3 c4 c5 c6 c7 c8) c1 c2 c3 c4 c5 c6 c7 c8
     = filter_dataframe T c1 c2 c3 c4 c5 c6 c7 c8
   \<and> subseq (rows (filter_dataframe T c1 c2 c3 c4 c5 c6 c7 c8)) (rows T)
   \<and> set (rows (filter_dataframe T c1 c2 c3 c4 c5 c6 c7 c8)) \<subseteq> set (rows T)"
proof -
  let ?F = "filter_dataframe T c1 c2 c3 c4 c5 c6 c7 c8"
  have once: "?F = T\<lparr>rows := filter (passes_all T c1 c2 c3 c4 c5 c6 c7 c8) (rows T)\<rparr>"
    by (rule filter_dataframe_rows)
  have "filter_dataframe ?F c1 c2 c3 c4 c5 c6 c7 c8
          = ?F\<lparr>rows := filter (passes_all T c1 c2 c3 c4 c5 c6 c7 c8) (rows ?F)\<rparr>"
    by (simp only: filter_dataframe_rows [of ?F] passes_all_filtered)
  also have "\<dots> = ?F"
    by (simp add: once)
  finally have idem: "filter_dataframe ?F c1 c2 c3 c4 c5 c6 c7 c8 = ?F" .
  have sub: "subseq (rows ?F) (rows T)"
    by (simp add: once)
  have "set (rows ?F) \<subseteq> set (rows T)"
    by (simp add: once)
  with idem sub show ?thesis
    by simp
qed

theorem filter_dataframe_idempotent_subset_witness:
  "filter_dataframe (filter_dataframe table_two [''UA''] [] [] [] [] [] [] [])
       [''UA''] [] [] [] [] [] [] []
     = filter_dataframe table_two [''UA''] [] [] [] [] [] [] []
   \<and> rows (filter_dataframe table_two [''UA''] [] [] [] [] [] [] []) = [row_ua_f]
   \<and> rows table_two = [row_ua_f, row_md_m]"
proof -
  have "rows (filter_dataframe table_two [''UA''] [] [] [] [] [] [] []) = [row_ua_f]"
    by (simp add: filter_dataframe_rows passes_all_def passes_def isin_def table_two_def
        row_ua_f_def row_md_m_def mk_row_def)
  moreover have "rows table_two = [row_ua_f, row_md_m]"
    by (simp add: table_two_def)
  ultimately show ?thesis
    using filter_dataframe_idempotent_subset [of table_two "[''UA'']" "[]" "[]" "[]" "[]" "[]" "[]" "[]"]
    by simp
qed

subsection \<open>Filtering with all observed values\<close>

lemma set_dropna: "set (dropna cells) = {v. Some v \<in> set cells}"
  by (induction cells) (auto simp: dropna_def List.map_filter_simps split: option.splits)

lemma set_column_options:
  "set (column_options df col) = {v. \<exists>r\<in>set (rows df). cat r col = Some v}"
  by (force simp: column_options_def unique_def set_dropna image_iff)

lemma isin_column_options:
  "r \<in> set (rows df) \<Longrightarrow> isin (cat r col) (column_options df col) = (cat r col \<noteq> None)"
  by (auto simp: isin_def set_column_options split: option.splits)

lemma column_options_empty:
  "(column_options df col = []) = (\<forall>r\<in>set (rows df). cat r col = None)"
proof -
  have "(column_options df col = []) = (set (column_options df col) = {})"
    by simp
  also have "\<dots> = (\<forall>v. \<not> (\<exists>r\<in>set (rows df). cat r col = Some v))"
    by (auto simp: set_column_options)
  also have "\<dots> = (\<forall>r\<in>set (rows df). cat r col = None)"
    by (metis not_None_eq)
  finally show ?thesis .
qed

lemma passes_column_options:
  "r \<in> set (rows df) \<Longrightarrow>
   passes df col (column_options df col) r =
     (col \<in> set (columns df) \<and> column_options df col \<noteq> [] \<longrightarrow> cat r col \<noteq> None)"
  by (auto simp: passes_def isin_column_options)

text \<open>
  C1 (as amended). Filtering with every dimension's list set to all values observed in
  that dimension's column keeps exactly the rows that hold a value in every dimension
  that is in the schema and has at least one observed value: a row with a missing value
  there is dropped, since a missing value is never among the observed values. The schema
  is kept. In particular the full table is reproduced when no row misses a value in a
  dimension of the schema.
\<close>

theorem filter_all_options_keeps_complete_rows:
  "rows (filter_all_options df) =
     filter (\<lambda>r. \<forall>col\<in>set dimension_columns.
                col \<in> set (columns df) \<and> column_options df col \<noteq> [] \<longrightarrow> cat r col \<noteq> None)
       (rows df)
   \<and> columns (filter_all_options df) = columns df
   \<and> ((\<forall>r\<in>set (rows df). \<forall>col\<in>set dimension_columns.
          col \<in> set (columns df) \<longrightarrow> cat r col \<noteq> None)
        \<longrightarrow> filter_all_options df = df)"
proof -
  let ?keep = "\<lambda>r. \<forall>col\<in>set dimension_columns.
                col \<in> set (columns df) \<and> column_options df col \<noteq> [] \<longrightarrow> cat r col \<noteq> None"
  let ?all = "passes_all df (column_options df ''country'') (column_options df ''region'')
       (column_options df ''Partner'') (column_options df ''client_age_range'')
       (column_options df ''client_gender'') (column_options df ''client_new'')
       (column_options df duration_column)
       (column_options df ''client_victim_of_nazism_status'')"
  have eq: "filter_all_options df = df\<lparr>rows := filter ?all (rows df)\<rparr>"
    by (simp add: filter_all_options_def filter_dataframe_rows)
  have same: "?all r = ?keep r" if "r \<in> set (rows df)" for r
    using that by (simp add: passes_all_def passes_column_options dimension_columns_def)
  have rows_eq: "rows (filter_all_options df) = filter ?keep (rows df)"
    using same by (simp add: eq cong: filter_cong)
  have cols: "columns (filter_all_options df) = columns df"
    by (simp add: eq)
  have full: "filter_all_options df = df"
    if "\<forall>r\<in>set (rows df). \<forall>col\<in>set dimension_columns.
          col \<in> set (columns df) \<longrightarrow> cat r col \<noteq> None"
  proof -
    have "filter ?keep (rows df) = rows df"
      using that by (intro filter_True) blast
    then have "rows (filter_all_options df) = rows df"
      by (simp only: rows_eq)
    then show ?thesis
      by (simp add: eq)
  qed
  from rows_eq cols full show ?thesis
    by blast
qed

theorem filter_all_options_keeps_complete_rows_witness:
  "rows (filter_all_options table_missing) = [row_ua_f]
   \<and> filter_all_options table_two = table_two"
proof -
  have full: "\<forall>r\<in>set (rows table_two). \<forall>col\<in>set dimension_columns.
      col \<in> set (columns table_two) \<longrightarrow> cat r col \<noteq> None"
    by (simp add: table_two_def dimension_columns_def duration_column_def row_ua_f_def
        row_md_m_def mk_row_def)
  have "filter_all_options table_two = table_two"
    using filter_all_options_keeps_complete_rows [of table_two] full by blast
  moreover have "rows (filter_all_options table_missing) = [row_ua_f]"
    using filter_all_options_keeps_complete_rows [of table_missing]
    by (simp add: column_options_def dropna_def unique_def List.map_filter_simps
        dimension_columns_def duration_column_def table_missing_def row_ua_f_def
        row_no_country_def mk_row_def)
  ultimately show ?thesis
    by simp
qed

text \<open>
  C1 as stated fails: in a table with one row from UA and one row without a country,
  the only observed country is UA, and the row without a country is dropped.
\<close>

theorem filter_all_options_counterexample:
  "filter_all_options table_missing \<noteq> table_missing"
proof
  assume "filter_all_options table_missing = table_missing"
  then have "rows (filter_all_options table_missing) = rows table_missing"
    by simp
  moreover have "rows (filter_all_options table_missing) = [row_ua_f]"
    by (simp add: filter_all_options_def filter_dataframe_rows passes_all_def passes_def isin_def
          column_options_def dropna_def unique_def List.map_filter_simps
          duration_column_def table_missing_def row_ua_f_def
          row_no_country_def mk_row_def)
  moreover have "rows table_missing = [row_ua_f, row_no_country]"
    by (simp add: table_missing_def)
  ultimately show False
    by simp
qed

section \<open>Properties of the aggregation engine\<close>



lemma set_sort_values_desc: "set (sort_values_desc key xs) = set xs"
  by (simp add: sort_values_desc_def)




subsection \<open>Zero-row tables\<close>

lemma value_counts_no_cells: "value_counts [] = []"
  by (simp add: value_counts_def dropna_def unique_def List.map_filter_simps sort_values_desc_def)

lemma gender_distribution_no_rows:
  "rows fdf = [] \<Longrightarrow> ''client_gender'' \<in> set (columns fdf) \<Longrightarrow>
   gender_distribution ops fdf = Some []"
  by (simp add: gender_distribution_def value_counts_no_cells add_percentage_def)

lemma age_distribution_no_rows:
  "rows fdf = [] \<Longrightarrow> ''client_age_range'' \<in> set (columns fdf) \<Longrightarrow>
   age_distribution ops fdf = Some []"
  by (simp add: age_distribution_def value_counts_no_cells add_percentage_def
      sort_values_na_last_def)

lemma indicator_summary_no_rows:
  assumes "rows fdf = []" and "indicator_summary group_columns fdf = Some out"
  shows "\<forall>(col, count, percentage)\<in>set out. count = 0 \<and> percentage = 0"
proof -
  from assms(2) have "out = sort_values_desc (\<lambda>(col, count, percentage). count)
      (map (\<lambda>col. (col, 0, 0)) (filter (\<lambda>col. col \<in> set (columns fdf)) group_columns))"
    using assms(1) by (auto simp: indicator_summary_def Let_def len_def split: if_splits)
  then show ?thesis
    by (auto simp: set_sort_values_desc)
qed

text \<open>
  C7. On a table without rows, the frequency-by-age section builds a cross-tabulation
  that has no column at all, and its chart summary then reads the column
  "Several times a week": the section raises \<^verbatim>\<open>KeyError\<close> instead of reporting zeros.
  (The distributions and the indicator-group summaries above do report zeros.)
\<close>

theorem freq_by_age_summary_no_rows_raises:
  assumes "rows fdf = []"
    and "activity_freq_col \<in> set (columns fdf)"
    and "''client_age_range'' \<in> set (columns fdf)"
  shows "freq_by_age_summary fdf = Some (Inl (KeyError ''Several times a week''))"
  using assms
  by (simp add: freq_by_age_summary_def crosstab_index_percent_def ct_getitem_def)

theorem freq_by_age_summary_no_rows_raises_witness:
  "rows table_no_rows = []
   \<and> freq_by_age_summary table_no_rows = Some (Inl (KeyError ''Several times a week''))
   \<and> (\<forall>ops. gender_distribution ops table_no_rows = Some [])
   \<and> chronic_summary table_no_rows = Some [(''Diabetes'', 0, 0), (''Dementia'', 0, 0)]"
proof -
  have r: "rows table_no_rows = []"
    by (simp add: table_no_rows_def)
  have c1: "activity_freq_col \<in> set (columns table_no_rows)"
    by (simp add: table_no_rows_def)
  have c2: "''client_age_range'' \<in> set (columns table_no_rows)"
    by (simp add: table_no_rows_def)
  have g: "\<forall>ops. gender_distribution ops table_no_rows = Some []"
    by (rule allI, rule gender_distribution_no_rows) (simp_all add: table_no_rows_def)
  have s: "chronic_summary table_no_rows = Some [(''Diabetes'', 0, 0), (''Dementia'', 0, 0)]"
    by (simp add: chronic_summary_def indicator_summary_def chronic_columns_def len_def
        table_no_rows_def activity_freq_col_def sort_values_desc_def)
  from freq_by_age_summary_no_rows_raises [OF r c1 c2] r g s show ?thesis
    by simp
qed

section \<open>Values without an entry in a mapping\<close>

text \<open>
  The age distribution looks the bracket up with \<^verbatim>\<open>Series.map(age_mapping)\<close>, which gives
  NaN for a bracket that is not a key; \<^verbatim>\<open>sort_values\<close> then puts it last.
\<close>

lemma age_sort_unmapped_last:
  "sort_values_na_last age_mapping [''70-85'', ''18-54'', ''90+'', ''unknown'', ''55-69'']
     = [''18-54'', ''55-69'', ''70-85'', ''unknown'', ''90+'']"
  by (simp add: sort_values_na_last_def age_mapping_def age_order_def upt_rec)

lemma set_unique: "set (unique xs) = set xs"
  by (simp add: unique_def)

lemma fst_set_value_counts: "fst ` set (value_counts cells) = {v. Some v \<in> set cells}"
  by (force simp: value_counts_def Let_def set_sort_values_desc set_unique set_dropna)

lemma map_raising_raises:
  assumes "x \<in> set xs" and "f x = Inl e"
  shows "\<exists>x'\<in>set xs. \<exists>e'. f x' = Inl e' \<and> map_raising f xs = Inl e'"
  using assms
proof (induction xs)
  case Nil
  then show ?case by simp
next
  case (Cons y ys)
  show ?case
  proof (cases "f y")
    case (Inl e')
    then show ?thesis by auto
  next
    case (Inr b)
    with Cons.prems have "x \<in> set ys" by auto
    with Cons.IH Cons.prems(2) obtain x' e' where "x' \<in> set ys" "f x' = Inl e'"
        "map_raising f ys = Inl e'"
      by blast
    with Inr show ?thesis by auto
  qed
qed

text \<open>
  C2. The general health section, entered when the schema has the physical support
  rating and the health column, indexes \<^verbatim>\<open>health_mapping\<close> with every observed answer
  (\<^verbatim>\<open>health_mapping[x]['order']\<close>). As soon as one row of the table holds an answer that is
  not a key of the mapping, the section raises \<^verbatim>\<open>KeyError\<close>: the value is neither ranked
  last nor shown as it is.
\<close>

theorem general_health_distribution_unmapped_raises:
  assumes "physical_rating_col \<in> set (columns fdf)"
    and "health_col \<in> set (columns fdf)"
    and "r \<in> set (rows fdf)"
    and "cat r health_col = Some v"
    and "map_of health_mapping v = None"
  shows "\<exists>k. general_health_distribution ops lang fdf = Some (Inl (KeyError k))
             \<and> map_of health_mapping k = None"
proof -
  let ?counts = "value_counts (map (\<lambda>r. cat r health_col) (rows fdf))"
  let ?f = "\<lambda>(x, n). case getitem health_mapping x of
                          Inl e \<Rightarrow> Inl e
                        | Inr entry \<Rightarrow> Inr (x, n :: nat, order entry)"
  from assms(3,4) have "Some v \<in> set (map (\<lambda>r. cat r health_col) (rows fdf))"
    by force
  then have "v \<in> fst ` set ?counts"
    by (simp add: fst_set_value_counts)
  then obtain n where in_counts: "(v, n) \<in> set ?counts"
    by force
  have "?f (v, n) = Inl (KeyError v)"
    using assms(5) by (simp add: getitem_def)
  with in_counts obtain p e where p: "p \<in> set ?counts" "?f p = Inl e" "map_raising ?f ?counts = Inl e"
    using map_raising_raises [of "(v, n)" ?counts ?f] by blast
  obtain k m where pk: "p = (k, m)"
    by (cases p)
  from p(2) have "e = KeyError k \<and> map_of health_mapping k = None"
    by (auto simp: pk getitem_def split: option.splits)
  with p(3) assms(1,2) show ?thesis
    by (auto simp: general_health_distribution_def Let_def)
qed

theorem general_health_distribution_unmapped_raises_witness:
  "general_health_distribution exact_arithmetic Ukrainian table_health_unmapped
     = Some (Inl (KeyError ''6. Very bad''))
   \<and> map_of health_mapping ''6. Very bad'' = None
   \<and> cat (health_row ''6. Very bad'') health_col = Some ''6. Very bad''
   \<and> columns table_health_unmapped = [physical_rating_col, health_col]"
proof -
  have h0: "physical_rating_col \<in> set (columns table_health_unmapped)"
    by (simp add: table_health_unmapped_def)
  have h1: "health_col \<in> set (columns table_health_unmapped)"
    by (simp add: table_health_unmapped_def)
  have h2: "health_row ''6. Very bad'' \<in> set (rows table_health_unmapped)"
    by (simp add: table_health_unmapped_def)
  have h3: "cat (health_row ''6. Very bad'') health_col = Some ''6. Very bad''"
    by (simp add: health_row_def mk_row_def)
  have h4: "map_of health_mapping ''6. Very bad'' = None"
    by (simp add: health_mapping_def ru_excellent_def ru_very_good_def ru_good_def
        ru_satisfactory_def ru_bad_def)
  have ev: "general_health_distribution exact_arithmetic Ukrainian table_health_unmapped
      = Some (Inl (KeyError ''6. Very bad''))"
    by (simp add: general_health_distribution_def table_health_unmapped_def health_row_def
        mk_row_def value_counts_def dropna_def unique_def List.map_filter_simps
        sort_values_desc_def getitem_def health_mapping_def ru_excellent_def ru_very_good_def
        ru_good_def ru_satisfactory_def ru_bad_def)
  have c: "columns table_health_unmapped = [physical_rating_col, health_col]"
    by (simp add: table_health_unmapped_def)
  from general_health_distribution_unmapped_raises
    [OF h0 h1 h2 h3 h4, of exact_arithmetic Ukrainian] ev h3 h4 c
  show ?thesis
    by simp
qed

text \<open>
  In a schema without the physical support rating the section is not entered, whatever
  the health answers are.
\<close>

lemma general_health_distribution_skipped:
  "physical_rating_col \<notin> set (columns fdf) \<Longrightarrow> general_health_distribution ops lang fdf = None"
  by (simp add: general_health_distribution_def)

lemma general_health_distribution_skipped_example:
  "general_health_distribution exact_arithmetic Ukrainian table_health_no_rating = None"
  by (simp add: general_health_distribution_def table_health_no_rating_def
      physical_rating_col_def health_col_def)

text \<open>With answers that are keys of the mapping the section produces its table.\<close>

lemma general_health_distribution_example:
  "general_health_distribution exact_arithmetic English table_health
     = Some (Inr [(''Excellent'', 1, 1, 333 / 10), (''Good'', 2, 3, 667 / 10)])"
  by code_simp

section \<open>Properties of the hypothesis evaluator\<close>

subsection \<open>Hypothesis 2\<close>

lemma groupby_keys: "set (map fst (groupby key rs)) = {k. \<exists>r\<in>set rs. key r = Some k}"
  by (force simp: groupby_def set_dropna comp_def)





text \<open>On a duration column that is not textual the section raises.\<close>

lemma hypothesis_2_not_text:
  assumes "duration_column \<in> set (columns fdf)" and "rating_col \<in> set (columns fdf)"
  shows "hypothesis_2 ops Float64 fdf = Some (Inl AttributeError)"
  using assms by (simp add: hypothesis_2_def)




subsection \<open>Hypothesis 1\<close>

lemma filter_two_sorted:
  fixes a b :: "'k::linorder"
  assumes "sorted ks" and "distinct ks" and "a < b"
  shows "filter (\<lambda>k. k \<in> set [a, b]) ks = filter (\<lambda>k. k \<in> set ks) [a, b]"
proof (rule sorted_distinct_set_unique)
  show "sorted (filter (\<lambda>k. k \<in> set [a, b]) ks)"
    using assms(1) by (rule sorted_filter [where f = "\<lambda>x. x", simplified])
  show "distinct (filter (\<lambda>k. k \<in> set [a, b]) ks)"
    using assms(2) by simp
  show "sorted (filter (\<lambda>k. k \<in> set ks) [a, b])"
    using assms(3) by (simp add: less_imp_le)
  show "distinct (filter (\<lambda>k. k \<in> set ks) [a, b])"
    using assms(3) by auto
  show "set (filter (\<lambda>k. k \<in> set [a, b]) ks) = set (filter (\<lambda>k. k \<in> set ks) [a, b])"
    by auto
qed

lemma series_mean_two_brackets:
  fixes a b :: "'k::linorder"
  assumes "sorted ks" and "distinct ks" and "a < b"
  shows "series_mean ops (map G (filter (\<lambda>k. k \<in> set [a, b]) ks)) =
         series_mean ops [if a \<in> set ks then G a else None, if b \<in> set ks then G b else None]"
proof -
  have "dropna (map G (filter (\<lambda>k. k \<in> set ks) [a, b])) =
      dropna [if a \<in> set ks then G a else None, if b \<in> set ks then G b else None]"
    by (cases "G a"; cases "G b") (simp_all add: dropna_def List.map_filter_simps)
  then show ?thesis
    unfolding filter_two_sorted [OF assms] series_mean_def by simp
qed

lemma physical_mean_keys:
  "physical_mean ops (map (\<lambda>k. (k, P k, Q k, N k)) ks) brackets =
     series_mean ops (map P (filter (\<lambda>k. k \<in> set brackets) ks))"
proof -
  have "map (\<lambda>(age, physical, psycho, n). physical)
          (filter (\<lambda>(age, p). age \<in> set brackets) (map (\<lambda>k. (k, P k, Q k, N k)) ks)) =
        map P (filter (\<lambda>k. k \<in> set brackets) ks)"
    by (induction ks) auto
  then show ?thesis
    by (simp only: physical_mean_def)
qed

lemma psycho_mean_keys:
  "psycho_mean ops (map (\<lambda>k. (k, P k, Q k, N k)) ks) brackets =
     series_mean ops (map Q (filter (\<lambda>k. k \<in> set brackets) ks))"
proof -
  have "map (\<lambda>(age, physical, psycho, n). psycho)
          (filter (\<lambda>(age, p). age \<in> set brackets) (map (\<lambda>k. (k, P k, Q k, N k)) ks)) =
        map Q (filter (\<lambda>k. k \<in> set brackets) ks)"
    by (induction ks) auto
  then show ?thesis
    by (simp only: psycho_mean_def)
qed

lemma dropna_filter_unknown:
  "dropna (map (\<lambda>r. cat r col) (filter (\<lambda>r. cat r col \<noteq> Some u) rs)) =
   filter (\<lambda>v. v \<noteq> u) (dropna (map (\<lambda>r. cat r col) rs))"
  by (induction rs) (auto simp: dropna_def List.map_filter_simps split: option.splits)

lemma known_brackets_keys:
  "sort (remdups (dropna (map (\<lambda>r. cat r ''client_age_range'')
      (filter (\<lambda>r. cat r ''client_age_range'' \<noteq> Some ''unknown'') (rows fdf))))) =
   known_brackets fdf"
  by (simp only: known_brackets_def dropna_filter_unknown)

lemma known_brackets_set:
  "set (known_brackets fdf) =
     {age. age \<noteq> ''unknown'' \<and> (\<exists>r\<in>set (rows fdf). cat r ''client_age_range'' = Some age)}"
  by (force simp: known_brackets_def set_dropna)

lemma bracket_members:
  assumes "bracket \<noteq> ''unknown''"
  shows "filter (\<lambda>r. cat r ''client_age_range'' = Some bracket)
           (filter (\<lambda>r. cat r ''client_age_range'' \<noteq> Some ''unknown'') (rows fdf)) =
         filter (\<lambda>r. cat r ''client_age_range'' = Some bracket) (rows fdf)"
  using assms by (auto intro: filter_cong)

lemma bracket_percent_absent:
  assumes "bracket \<notin> set (known_brackets fdf)" and "bracket \<noteq> ''unknown''"
  shows "bracket_percent ops fdf cols bracket = None"
proof -
  from assms have "filter (\<lambda>r. cat r ''client_age_range'' = Some bracket) (rows fdf) = []"
    by (auto simp: known_brackets_set filter_empty_conv)
  then show ?thesis
    by (simp add: bracket_percent_def group_mean_def dropna_def List.map_filter_simps)
qed

text \<open>The table of hypothesis 1, bracket by bracket.\<close>

lemma age_activity_table_brackets:
  "age_activity_table ops (filter (\<lambda>col. col \<in> set (columns fdf)) physical_cols)
      (filter (\<lambda>col. col \<in> set (columns fdf)) psycho_cols)
      (filter (\<lambda>r. cat r ''client_age_range'' \<noteq> Some ''unknown'') (rows fdf)) =
   map (\<lambda>age. (age, bracket_percent ops fdf physical_cols age,
                bracket_percent ops fdf psycho_cols age,
                count (map (\<lambda>r. cat r ''ID'')
                  (filter (\<lambda>r. cat r ''client_age_range'' = Some age) (rows fdf)))))
     (known_brackets fdf)"
proof -
  let ?ap = "filter (\<lambda>col. col \<in> set (columns fdf)) physical_cols"
  let ?as = "filter (\<lambda>col. col \<in> set (columns fdf)) psycho_cols"
  let ?nu = "filter (\<lambda>r. cat r ''client_age_range'' \<noteq> Some ''unknown'') (rows fdf)"
  let ?members = "\<lambda>age. filter (\<lambda>r. cat r ''client_age_range'' = Some age) ?nu"
  have "age_activity_table ops ?ap ?as ?nu =
      map (\<lambda>age. (age,
             map_option (\<lambda>m. f_mul ops m 100)
               (group_mean ops (map (\<lambda>r. Some (row_percent ops ?ap r)) (?members age))),
             map_option (\<lambda>m. f_mul ops m 100)
               (group_mean ops (map (\<lambda>r. Some (row_percent ops ?as r)) (?members age))),
             count (map (\<lambda>r. cat r ''ID'') (?members age))))
        (known_brackets fdf)"
    unfolding age_activity_table_def groupby_def known_brackets_keys
    by (simp del: filter_filter add: comp_def)
  also have "\<dots> =
      map (\<lambda>age. (age, bracket_percent ops fdf physical_cols age,
                bracket_percent ops fdf psycho_cols age,
                count (map (\<lambda>r. cat r ''ID'')
                  (filter (\<lambda>r. cat r ''client_age_range'' = Some age) (rows fdf)))))
        (known_brackets fdf)"
  proof (rule map_cong [OF refl])
    fix age
    assume "age \<in> set (known_brackets fdf)"
    then have known: "age \<noteq> ''unknown''"
      by (simp add: known_brackets_set)
    show "(age,
             map_option (\<lambda>m. f_mul ops m 100)
               (group_mean ops (map (\<lambda>r. Some (row_percent ops ?ap r)) (?members age))),
             map_option (\<lambda>m. f_mul ops m 100)
               (group_mean ops (map (\<lambda>r. Some (row_percent ops ?as r)) (?members age))),
             count (map (\<lambda>r. cat r ''ID'') (?members age))) =
        (age, bracket_percent ops fdf physical_cols age,
                bracket_percent ops fdf psycho_cols age,
                count (map (\<lambda>r. cat r ''ID'')
                  (filter (\<lambda>r. cat r ''client_age_range'' = Some age) (rows fdf))))"
      by (simp only: bracket_percent_def bracket_members [OF known])
  qed
  finally show ?thesis .
qed

lemma physical_mean_brackets:
  assumes "a < b" and "a \<noteq> ''unknown''" and "b \<noteq> ''unknown''"
  shows "physical_mean ops
           (map (\<lambda>age. (age, bracket_percent ops fdf pcols age, bracket_percent ops fdf scols age,
                        N age)) (known_brackets fdf)) [a, b] =
         series_mean ops [bracket_percent ops fdf pcols a, bracket_percent ops fdf pcols b]"
proof -
  have ks: "sorted (known_brackets fdf)" "distinct (known_brackets fdf)"
    by (simp_all add: known_brackets_def)
  have "(if k \<in> set (known_brackets fdf) then bracket_percent ops fdf pcols k else None) =
      bracket_percent ops fdf pcols k" if "k \<noteq> ''unknown''" for k
    using that by (simp add: bracket_percent_absent)
  with assms(2,3) show ?thesis
    unfolding physical_mean_keys series_mean_two_brackets [OF ks assms(1)] by simp
qed

lemma psycho_mean_brackets:
  assumes "a < b" and "a \<noteq> ''unknown''" and "b \<noteq> ''unknown''"
  shows "psycho_mean ops
           (map (\<lambda>age. (age, bracket_percent ops fdf pcols age, bracket_percent ops fdf scols age,
                        N age)) (known_brackets fdf)) [a, b] =
         series_mean ops [bracket_percent ops fdf scols a, bracket_percent ops fdf scols b]"
proof -
  have ks: "sorted (known_brackets fdf)" "distinct (known_brackets fdf)"
    by (simp_all add: known_brackets_def)
  have "(if k \<in> set (known_brackets fdf) then bracket_percent ops fdf scols k else None) =
      bracket_percent ops fdf scols k" if "k \<noteq> ''unknown''" for k
    using that by (simp add: bracket_percent_absent)
  with assms(2,3) show ?thesis
    unfolding psycho_mean_keys series_mean_two_brackets [OF ks assms(1)] by simp
qed

lemma h1_conclude_cases:
  "(h1_conclude yp op ys os = H1_supported) = (nan_less op yp \<and> nan_less ys os)"
  "(h1_conclude yp op ys os = H1_partially_physical) = (nan_less op yp \<and> \<not> nan_less ys os)"
  "(h1_conclude yp op ys os = H1_partially_psychosocial) = (\<not> nan_less op yp \<and> nan_less ys os)"
  "(h1_conclude yp op ys os = H1_not_supported) = (\<not> nan_less op yp \<and> \<not> nan_less ys os)"
  by (auto simp: h1_conclude_def)

lemma hypothesis_1_report:
  assumes "hypothesis_1 ops fdf = Some (Inr report)"
  shows "h1_younger_physical report =
      physical_mean ops (h1_table report) [''18-54'', ''55-69'']"
    and "h1_older_physical report = physical_mean ops (h1_table report) [''70-85'', ''85+'']"
    and "h1_younger_psycho report = psycho_mean ops (h1_table report) [''18-54'', ''55-69'']"
    and "h1_older_psycho report = psycho_mean ops (h1_table report) [''70-85'', ''85+'']"
    and "h1_verdict report = h1_conclude (h1_younger_physical report) (h1_older_physical report)
            (h1_younger_psycho report) (h1_older_psycho report)"
    and "h1_table report =
      age_activity_table ops (filter (\<lambda>col. col \<in> set (columns fdf)) physical_cols)
        (filter (\<lambda>col. col \<in> set (columns fdf)) psycho_cols)
        (filter (\<lambda>r. cat r ''client_age_range'' \<noteq> Some ''unknown'') (rows fdf))"
  using assms by (auto simp: hypothesis_1_def Let_def split: if_splits)

text \<open>
  C6. Hypothesis 1 produces a report exactly when the schema has the age bracket, the ID,
  a physical and a psychosocial activity column. Rows of bracket \<^verbatim>\<open>unknown\<close> are left out:
  the table has one row per observed bracket other than \<^verbatim>\<open>unknown\<close>, with the bracket's
  means of the physical and of the psychosocial percent. The younger clients' physical
  figure is the mean of these per-bracket means over the brackets 18-54 and 55-69, the
  older clients' over 70-85 and 85+ (a bracket without rows has no mean and is skipped),
  and likewise for the psychosocial percent. The conclusion is "supported" iff the
  younger physical figure is greater than the older one and the older psychosocial figure
  is greater than the younger one, "partially supported" (physical) iff only the first
  holds, "partially supported" (psychosocial) iff only the second holds, and "not
  supported" otherwise; a figure that is NaN is greater than nothing and nothing is greater
  than it.
\<close>

theorem hypothesis_1_four_way:
  "(\<exists>report. hypothesis_1 ops fdf = Some (Inr report)) =
     (''client_age_range'' \<in> set (columns fdf) \<and> ''ID'' \<in> set (columns fdf)
      \<and> (\<exists>col\<in>set physical_cols. col \<in> set (columns fdf))
      \<and> (\<exists>col\<in>set psycho_cols. col \<in> set (columns fdf)))
   \<and> (\<forall>report. hypothesis_1 ops fdf = Some (Inr report) \<longrightarrow>
        h1_table report =
          map (\<lambda>age. (age, bracket_percent ops fdf physical_cols age,
                       bracket_percent ops fdf psycho_cols age,
                       count (map (\<lambda>r. cat r ''ID'')
                         (filter (\<lambda>r. cat r ''client_age_range'' = Some age) (rows fdf)))))
            (known_brackets fdf)
        \<and> set (known_brackets fdf) =
            {age. age \<noteq> ''unknown'' \<and> (\<exists>r\<in>set (rows fdf). cat r ''client_age_range'' = Some age)}
        \<and> h1_younger_physical report =
          series_mean ops [bracket_percent ops fdf physical_cols ''18-54'',
                           bracket_percent ops fdf physical_cols ''55-69'']
        \<and> h1_older_physical report =
          series_mean ops [bracket_percent ops fdf physical_cols ''70-85'',
                           bracket_percent ops fdf physical_cols ''85+'']
        \<and> h1_younger_psycho report =
          series_mean ops [bracket_percent ops fdf psycho_cols ''18-54'',
                           bracket_percent ops fdf psycho_cols ''55-69'']
        \<and> h1_older_psycho report =
          series_mean ops [bracket_percent ops fdf psycho_cols ''70-85'',
                           bracket_percent ops fdf psycho_cols ''85+'']
        \<and> (h1_verdict report = H1_supported) =
            ((\<exists>y z. h1_younger_physical report = Some y \<and> h1_older_physical report = Some z \<and> y > z)
             \<and> (\<exists>y z. h1_younger_psycho report = Some y \<and> h1_older_psycho report = Some z \<and> z > y))
        \<and> (h1_verdict report = H1_partially_physical) =
            ((\<exists>y z. h1_younger_physical report = Some y \<and> h1_older_physical report = Some z \<and> y > z)
             \<and> \<not> (\<exists>y z. h1_younger_psycho report = Some y \<and> h1_older_psycho report = Some z \<and> z > y))
        \<and> (h1_verdict report = H1_partially_psychosocial) =
            (\<not> (\<exists>y z. h1_younger_physical report = Some y \<and> h1_older_physical report = Some z \<and> y > z)
             \<and> (\<exists>y z. h1_younger_psycho report = Some y \<and> h1_older_psycho report = Some z \<and> z > y))
        \<and> (h1_verdict report = H1_not_supported) =
            (\<not> (\<exists>y z. h1_younger_physical report = Some y \<and> h1_older_physical report = Some z \<and> y > z)
             \<and> \<not> (\<exists>y z. h1_younger_psycho report = Some y \<and> h1_older_psycho report = Some z \<and> z > y)))"
proof -
  have lt: "(''18-54'' :: string) < ''55-69''" "(''70-85'' :: string) < ''85+''"
    by simp_all
  have ne: "''18-54'' \<noteq> ''unknown''" "''55-69'' \<noteq> ''unknown''" "''70-85'' \<noteq> ''unknown''"
      "''85+'' \<noteq> ''unknown''"
    by simp_all
  have ex: "(\<exists>report. hypothesis_1 ops fdf = Some (Inr report)) =
     (''client_age_range'' \<in> set (columns fdf) \<and> ''ID'' \<in> set (columns fdf)
      \<and> (\<exists>col\<in>set physical_cols. col \<in> set (columns fdf))
      \<and> (\<exists>col\<in>set psycho_cols. col \<in> set (columns fdf)))"
    by (auto simp: hypothesis_1_def Let_def filter_empty_conv)
  have props: "h1_table report =
          map (\<lambda>age. (age, bracket_percent ops fdf physical_cols age,
                       bracket_percent ops fdf psycho_cols age,
                       count (map (\<lambda>r. cat r ''ID'')
                         (filter (\<lambda>r. cat r ''client_age_range'' = Some age) (rows fdf)))))
            (known_brackets fdf)
        \<and> set (known_brackets fdf) =
            {age. age \<noteq> ''unknown'' \<and> (\<exists>r\<in>set (rows fdf). cat r ''client_age_range'' = Some age)}
        \<and> h1_younger_physical report =
          series_mean ops [bracket_percent ops fdf physical_cols ''18-54'',
                           bracket_percent ops fdf physical_cols ''55-69'']
        \<and> h1_older_physical report =
          series_mean ops [bracket_percent ops fdf physical_cols ''70-85'',
                           bracket_percent ops fdf physical_cols ''85+'']
        \<and> h1_younger_psycho report =
          series_mean ops [bracket_percent ops fdf psycho_cols ''18-54'',
                           bracket_percent ops fdf psycho_cols ''55-69'']
        \<and> h1_older_psycho report =
          series_mean ops [bracket_percent ops fdf psycho_cols ''70-85'',
                           bracket_percent ops fdf psycho_cols ''85+'']
        \<and> (h1_verdict report = H1_supported) =
            ((\<exists>y z. h1_younger_physical report = Some y \<and> h1_older_physical report = Some z \<and> y > z)
             \<and> (\<exists>y z. h1_younger_psycho report = Some y \<and> h1_older_psycho report = Some z \<and> z > y))
        \<and> (h1_verdict report = H1_partially_physical) =
            ((\<exists>y z. h1_younger_physical report = Some y \<and> h1_older_physical report = Some z \<and> y > z)
             \<and> \<not> (\<exists>y z. h1_younger_psycho report = Some y \<and> h1_older_psycho report = Some z \<and> z > y))
        \<and> (h1_verdict report = H1_partially_psychosocial) =
            (\<not> (\<exists>y z. h1_younger_physical report = Some y \<and> h1_older_physical report = Some z \<and> y > z)
             \<and> (\<exists>y z. h1_younger_psycho report = Some y \<and> h1_older_psycho report = Some z \<and> z > y))
        \<and> (h1_verdict report = H1_not_supported) =
            (\<not> (\<exists>y z. h1_younger_physical report = Some y \<and> h1_older_physical report = Some z \<and> y > z)
             \<and> \<not> (\<exists>y z. h1_younger_psycho report = Some y \<and> h1_older_psycho report = Some z \<and> z > y))"
    if rep: "hypothesis_1 ops fdf = Some (Inr report)" for report
  proof -
    note r = hypothesis_1_report [OF rep]
    have table: "h1_table report =
          map (\<lambda>age. (age, bracket_percent ops fdf physical_cols age,
                       bracket_percent ops fdf psycho_cols age,
                       count (map (\<lambda>r. cat r ''ID'')
                         (filter (\<lambda>r. cat r ''client_age_range'' = Some age) (rows fdf)))))
            (known_brackets fdf)"
      unfolding r(6) by (rule age_activity_table_brackets)
    have yp: "h1_younger_physical report =
        series_mean ops [bracket_percent ops fdf physical_cols ''18-54'',
                         bracket_percent ops fdf physical_cols ''55-69'']"
      unfolding r(1) table by (rule physical_mean_brackets [OF lt(1) ne(1,2)])
    have op: "h1_older_physical report =
        series_mean ops [bracket_percent ops fdf physical_cols ''70-85'',
                         bracket_percent ops fdf physical_cols ''85+'']"
      unfolding r(2) table by (rule physical_mean_brackets [OF lt(2) ne(3,4)])
    have ys: "h1_younger_psycho report =
        series_mean ops [bracket_percent ops fdf psycho_cols ''18-54'',
                         bracket_percent ops fdf psycho_cols ''55-69'']"
      unfolding r(3) table by (rule psycho_mean_brackets [OF lt(1) ne(1,2)])
    have os: "h1_older_psycho report =
        series_mean ops [bracket_percent ops fdf psycho_cols ''70-85'',
                         bracket_percent ops fdf psycho_cols ''85+'']"
      unfolding r(4) table by (rule psycho_mean_brackets [OF lt(2) ne(3,4)])
    have gt: "nan_less b a = (\<exists>y z. a = Some y \<and> b = Some z \<and> y > z)" for a b
      by (auto simp: nan_less_def split: option.splits)
    have gt': "nan_less a b = (\<exists>y z. a = Some y \<and> b = Some z \<and> z > y)" for a b
      by (auto simp: nan_less_def split: option.splits)
    note v = h1_conclude_cases [of "h1_younger_physical report" "h1_older_physical report"
        "h1_younger_psycho report" "h1_older_psycho report", folded r(5),
        unfolded gt [of "h1_older_physical report" "h1_younger_physical report"]
          gt' [of "h1_younger_psycho report" "h1_older_psycho report"]]
    from table known_brackets_set [of fdf] yp op ys os v show ?thesis
      by blast
  qed
  from ex props show ?thesis
    by blast
qed

theorem hypothesis_1_four_way_witness:
  "(\<exists>report. hypothesis_1 exact_arithmetic table_h1 = Some (Inr report)
     \<and> map fst (h1_table report) = [''18-54'', ''55-69'', ''70-85'', ''85+'']
     \<and> h1_younger_physical report = Some 75 \<and> h1_older_physical report = Some 0
     \<and> h1_younger_psycho report = Some 25 \<and> h1_older_psycho report = Some 100
     \<and> h1_verdict report = H1_supported)
   \<and> hypothesis_1 exact_arithmetic table_h1_physical_only =
       Some (Inr \<lparr>h1_table = [(''18-54'', Some 100, Some 100, 1), (''70-85'', Some 0, Some 100, 1)],
                  h1_younger_physical = Some 100, h1_older_physical = Some 0,
                  h1_younger_psycho = Some 100, h1_older_psycho = Some 100,
                  h1_verdict = H1_partially_physical\<rparr>)
   \<and> hypothesis_1 exact_arithmetic table_h1_psycho_only =
       Some (Inr \<lparr>h1_table = [(''18-54'', Some 100, Some 0, 1), (''70-85'', Some 100, Some 100, 1)],
                  h1_younger_physical = Some 100, h1_older_physical = Some 100,
                  h1_younger_psycho = Some 0, h1_older_psycho = Some 100,
                  h1_verdict = H1_partially_psychosocial\<rparr>)
   \<and> hypothesis_1 exact_arithmetic table_h1_no_older =
       Some (Inr \<lparr>h1_table = [(''18-54'', Some 100, Some 0, 1)],
                  h1_younger_physical = Some 100, h1_older_physical = None,
                  h1_younger_psycho = Some 0, h1_older_psycho = None,
                  h1_verdict = H1_not_supported\<rparr>)"
proof -
  have cols: "''client_age_range'' \<in> set (columns table_h1) \<and> ''ID'' \<in> set (columns table_h1)
      \<and> (\<exists>col\<in>set physical_cols. col \<in> set (columns table_h1))
      \<and> (\<exists>col\<in>set psycho_cols. col \<in> set (columns table_h1))"
    by (simp add: table_h1_def h1_columns_def physical_cols_def psycho_cols_def)
  have m: "series_mean exact_arithmetic
             [bracket_percent exact_arithmetic table_h1 physical_cols ''18-54'',
              bracket_percent exact_arithmetic table_h1 physical_cols ''55-69''] = Some 75"
      "series_mean exact_arithmetic
             [bracket_percent exact_arithmetic table_h1 physical_cols ''70-85'',
              bracket_percent exact_arithmetic table_h1 physical_cols ''85+''] = Some 0"
      "series_mean exact_arithmetic
             [bracket_percent exact_arithmetic table_h1 psycho_cols ''18-54'',
              bracket_percent exact_arithmetic table_h1 psycho_cols ''55-69''] = Some 25"
      "series_mean exact_arithmetic
             [bracket_percent exact_arithmetic table_h1 psycho_cols ''70-85'',
              bracket_percent exact_arithmetic table_h1 psycho_cols ''85+''] = Some 100"
    by code_simp+
  have k: "known_brackets table_h1 = [''18-54'', ''55-69'', ''70-85'', ''85+'']"
    by code_simp
  note four = hypothesis_1_four_way [of exact_arithmetic table_h1, unfolded m]
  from four cols obtain report where rep: "hypothesis_1 exact_arithmetic table_h1 = Some (Inr report)"
    by blast
  with four have vals: "h1_younger_physical report = Some 75" "h1_older_physical report = Some 0"
      "h1_younger_psycho report = Some 25" "h1_older_psycho report = Some 100"
    by blast+
  from four rep have "h1_table report =
          map (\<lambda>age. (age, bracket_percent exact_arithmetic table_h1 physical_cols age,
                       bracket_percent exact_arithmetic table_h1 psycho_cols age,
                       count (map (\<lambda>r. cat r ''ID'')
                         (filter (\<lambda>r. cat r ''client_age_range'' = Some age) (rows table_h1)))))
            (known_brackets table_h1)"
    by blast
  then have brackets: "map fst (h1_table report) = [''18-54'', ''55-69'', ''70-85'', ''85+'']"
    by (simp add: k)
  from four rep have "(h1_verdict report = H1_supported) =
      ((\<exists>y z. h1_younger_physical report = Some y \<and> h1_older_physical report = Some z \<and> y > z)
       \<and> (\<exists>y z. h1_younger_psycho report = Some y \<and> h1_older_psycho report = Some z \<and> z > y))"
    by blast
  then have "h1_verdict report = H1_supported"
    by (simp add: vals)
  with rep vals brackets have first: "\<exists>report. hypothesis_1 exact_arithmetic table_h1 = Some (Inr report)
     \<and> map fst (h1_table report) = [''18-54'', ''55-69'', ''70-85'', ''85+'']
     \<and> h1_younger_physical report = Some 75 \<and> h1_older_physical report = Some 0
     \<and> h1_younger_psycho report = Some 25 \<and> h1_older_psycho report = Some 100
     \<and> h1_verdict report = H1_supported"
    by auto
  have "hypothesis_1 exact_arithmetic table_h1_physical_only =
       Some (Inr \<lparr>h1_table = [(''18-54'', Some 100, Some 100, 1), (''70-85'', Some 0, Some 100, 1)],
                  h1_younger_physical = Some 100, h1_older_physical = Some 0,
                  h1_younger_psycho = Some 100, h1_older_psycho = Some 100,
                  h1_verdict = H1_partially_physical\<rparr>)"
    by code_simp
  moreover have "hypothesis_1 exact_arithmetic table_h1_psycho_only =
       Some (Inr \<lparr>h1_table = [(''18-54'', Some 100, Some 0, 1), (''70-85'', Some 100, Some 100, 1)],
                  h1_younger_physical = Some 100, h1_older_physical = Some 100,
                  h1_younger_psycho = Some 0, h1_older_psycho = Some 100,
                  h1_verdict = H1_partially_psychosocial\<rparr>)"
    by code_simp
  moreover have "hypothesis_1 exact_arithmetic table_h1_no_older =
       Some (Inr \<lparr>h1_table = [(''18-54'', Some 100, Some 0, 1)],
                  h1_younger_physical = Some 100, h1_older_physical = None,
                  h1_younger_psycho = Some 0, h1_older_psycho = None,
                  h1_verdict = H1_not_supported\<rparr>)"
    by code_simp
  ultimately show ?thesis
    using first by blast
qed

text \<open>
  Without rows every figure is NaN and the conclusion is "not supported"; without the ID
  column the aggregation raises.
\<close>

lemma hypothesis_1_no_rows:
  "map_option (map_sum id h1_verdict) (hypothesis_1 exact_arithmetic (table_h1\<lparr>rows := []\<rparr>))
     = Some (Inr H1_not_supported)"
  by code_simp

lemma hypothesis_1_no_id:
  "hypothesis_1 exact_arithmetic (table_h1\<lparr>columns := tl h1_columns\<rparr>) = Some (Inl (KeyError ''ID''))"
  by code_simp

subsection \<open>Hypothesis 3\<close>

lemma literal_0_1_positive: "0 < literal_0_1"
  by (simp add: literal_0_1_def)

lemma complete_pairs_map:
  "complete_pairs (map f rs) (map g rs) =
     List.map_filter (\<lambda>r. case (f r, g r) of (Some d, Some h) \<Rightarrow> Some (d, h) | _ \<Rightarrow> None) rs"
  by (induction rs) (auto simp: complete_pairs_def List.map_filter_simps split: option.splits)

lemma hypothesis_3_correlation:
  "hypothesis_3 fdf = Some report \<Longrightarrow> h3_correlation report = pearson (scored_rows fdf)"
  by (auto simp: hypothesis_3_def Let_def corr_def scored_rows_def complete_pairs_map
      split: if_splits)

lemma hypothesis_3_verdict:
  "hypothesis_3 fdf = Some report \<Longrightarrow> h3_verdict report = h3_conclude (h3_correlation report)"
  by (auto simp: hypothesis_3_def Let_def split: if_splits)

lemma h3_conclude_cases:
  "\<bar>r\<bar> < literal_0_1 \<Longrightarrow> h3_conclude (Some r) = H3_no_significant_correlation"
  "r > literal_0_1 \<Longrightarrow> h3_conclude (Some r) = H3_supported_positive"
  "r \<le> - literal_0_1 \<Longrightarrow> h3_conclude (Some r) = H3_not_supported_negative"
  "h3_conclude None = H3_not_supported_negative"
  using literal_0_1_positive by (auto simp: h3_conclude_def nan_less_def)

lemma sum_list_constant:
  "\<forall>x\<in>set xs. x = (c::real) \<Longrightarrow> sum_list xs = real (length xs) * c"
  by (induction xs) (auto simp: algebra_simps)

lemma pearson_constant_fst:
  assumes "\<forall>p\<in>set pairs. fst p = c"
  shows "pearson pairs = None"
proof (cases "length pairs < 2")
  case True
  then show ?thesis by (simp add: pearson_def)
next
  case False
  then have n: "real (length pairs) \<noteq> 0" by auto
  have "sum_list (map fst pairs) = real (length pairs) * c"
    using assms sum_list_constant [of "map fst pairs" c] by simp
  with n have mx: "sum_list (map fst pairs) / real (length pairs) = c"
    by simp
  have zero: "map (\<lambda>(x, y). (x - c) * (x - c)) pairs = map (\<lambda>p. 0) pairs"
    using assms by (auto simp: case_prod_beta)
  have "sum_list (map (\<lambda>(x, y). (x - c) * (x - c)) pairs) = sum_list (map (\<lambda>p. 0 :: real) pairs)"
    by (simp only: zero)
  then have "sum_list (map (\<lambda>(x, y). (x - c) * (x - c)) pairs) = 0"
    by simp
  with mx show ?thesis
    by (simp add: pearson_def Let_def)
qed

lemma pearson_constant_snd:
  assumes "\<forall>p\<in>set pairs. snd p = c"
  shows "pearson pairs = None"
proof (cases "length pairs < 2")
  case True
  then show ?thesis by (simp add: pearson_def)
next
  case False
  then have n: "real (length pairs) \<noteq> 0" by auto
  have "sum_list (map snd pairs) = real (length pairs) * c"
    using assms sum_list_constant [of "map snd pairs" c] by simp
  with n have my: "sum_list (map snd pairs) / real (length pairs) = c"
    by simp
  have zero: "map (\<lambda>(x, y). (y - c) * (y - c)) pairs = map (\<lambda>p. 0) pairs"
    using assms by (auto simp: case_prod_beta)
  have "sum_list (map (\<lambda>(x, y). (y - c) * (y - c)) pairs) = sum_list (map (\<lambda>p. 0 :: real) pairs)"
    by (simp only: zero)
  then have "sum_list (map (\<lambda>(x, y). (y - c) * (y - c)) pairs) = 0"
    by simp
  with my show ?thesis
    by (simp add: pearson_def Let_def)
qed

text \<open>
  C10. Whenever the correlation of hypothesis 3 is undefined (NaN), the conclusion is the
  last branch, "not supported (negative correlation)". The correlation is undefined when
  fewer than two rows have both a duration ordinal and a health score, and when all such
  rows have the same duration ordinal or all have the same health score (zero variance).
\<close>

theorem hypothesis_3_nan_correlation:
  assumes "hypothesis_3 fdf = Some report"
  shows "(h3_correlation report = None \<longrightarrow> h3_verdict report = H3_not_supported_negative)
    \<and> (length (scored_rows fdf) < 2 \<longrightarrow> h3_correlation report = None)
    \<and> ((\<exists>d. \<forall>p\<in>set (scored_rows fdf). fst p = d) \<longrightarrow> h3_correlation report = None)
    \<and> ((\<exists>h. \<forall>p\<in>set (scored_rows fdf). snd p = h) \<longrightarrow> h3_correlation report = None)"
proof -
  note c = hypothesis_3_correlation [OF assms]
  have "h3_correlation report = None \<longrightarrow> h3_verdict report = H3_not_supported_negative"
    by (simp add: hypothesis_3_verdict [OF assms] h3_conclude_cases(4))
  moreover have "length (scored_rows fdf) < 2 \<longrightarrow> h3_correlation report = None"
    by (simp add: c pearson_def)
  moreover have "(\<exists>d. \<forall>p\<in>set (scored_rows fdf). fst p = d) \<longrightarrow> h3_correlation report = None"
    unfolding c using pearson_constant_fst by blast
  moreover have "(\<exists>h. \<forall>p\<in>set (scored_rows fdf). snd p = h) \<longrightarrow> h3_correlation report = None"
    unfolding c using pearson_constant_snd by blast
  ultimately show ?thesis
    by blast
qed

theorem hypothesis_3_nan_correlation_witness:
  "(\<exists>report. hypothesis_3 table_h3_one_pair = Some report
      \<and> scored_rows table_h3_one_pair = [(1, 5)]
      \<and> h3_correlation report = None \<and> h3_verdict report = H3_not_supported_negative)
   \<and> (\<exists>report. hypothesis_3 table_h3_same_duration = Some report
      \<and> scored_rows table_h3_same_duration = [(4, 5), (4, 3), (4, 1)]
      \<and> h3_correlation report = None \<and> h3_verdict report = H3_not_supported_negative)"
proof -
  have pairs: "scored_rows table_h3_one_pair = [(1, 5)]"
      "scored_rows table_h3_same_duration = [(4, 5), (4, 3), (4, 1)]"
    by code_simp+
  obtain a where a: "hypothesis_3 table_h3_one_pair = Some a"
    by (simp add: hypothesis_3_def Let_def table_h3_one_pair_def h3_columns_def)
  obtain b where b: "hypothesis_3 table_h3_same_duration = Some b"
    by (simp add: hypothesis_3_def Let_def table_h3_same_duration_def h3_columns_def)
  from hypothesis_3_nan_correlation [OF a]
  have "h3_correlation a = None \<and> h3_verdict a = H3_not_supported_negative"
    by (simp add: pairs)
  moreover from hypothesis_3_nan_correlation [OF b]
  have "h3_correlation b = None \<and> h3_verdict b = H3_not_supported_negative"
    by (simp add: pairs)
  ultimately show ?thesis
    using a b pairs by blast
qed









lemma h3_conclude_iff:
  "(h3_conclude (Some r) = H3_no_significant_correlation) = (\<bar>r\<bar> < literal_0_1)"
  "(h3_conclude (Some r) = H3_supported_positive) = (r > literal_0_1)"
  "(h3_conclude (Some r) = H3_not_supported_negative) = (r \<le> - literal_0_1 \<or> r = literal_0_1)"
  using literal_0_1_positive by (auto simp: h3_conclude_def nan_less_def)





text \<open>
  The literal \<^verbatim>\<open>0.1\<close> is above one tenth, and a coefficient equal to it reaches the last
  branch.
\<close>

lemma literal_0_1_above_tenth: "1 / 10 < literal_0_1"
  by (simp add: literal_0_1_def)

lemma h3_conclude_at_literal: "h3_conclude (Some literal_0_1) = H3_not_supported_negative"
  by (simp add: h3_conclude_iff)

text \<open>
  The duration table of hypothesis 3 looks the duration up with \<^verbatim>\<open>Series.map\<close>: a duration
  that is not a key of \<^verbatim>\<open>duration_order\<close> is kept and sorted last.
\<close>

lemma duration_sort_unmapped_last:
  "sort_values_na_last (map_of duration_order)
     [''1-2 years'', ''12 weeks'', ''3-6 months'', ''1-3 months'']
     = [''1-3 months'', ''3-6 months'', ''1-2 years'', ''12 weeks'']"
  by (simp add: sort_values_na_last_def duration_order_def)

end
